theory Spec2Isabelle
  imports Main "HOL-Library.Word"
begin

unbundle bit_operations_syntax

section \<open>The log collector of the Kaa C client (kaa\_logging.c)\<close>

text \<open>
  The development embeds the functions of \<^verbatim>\<open>kaa_logging.c\<close>: the collector structure, the
  strategy dispatch \<^verbatim>\<open>update_storage\<close>, \<^verbatim>\<open>kaa_logging_add_record\<close>,
  \<^verbatim>\<open>kaa_logging_request_get_size\<close>, \<^verbatim>\<open>kaa_logging_request_serialize\<close> and
  \<^verbatim>\<open>kaa_logging_handle_server_sync\<close>.

  Conventions of the embedding.
  \<^item> \<^verbatim>\<open>size_t\<close> and \<^verbatim>\<open>ssize_t\<close> are 64-bit words (an LP64 platform); \<^verbatim>\<open>ssize_t\<close> is the same
    bit pattern read as two's complement. Arithmetic on them wraps as in C.
  \<^item> A pointer that may be \<^verbatim>\<open>NULL\<close> is an \<open>option\<close>; the pointee travels with it.
  \<^item> The message buffer lives in a flat byte memory indexed by addresses (natural numbers);
    a cursor holds the addresses \<^verbatim>\<open>current\<close> and \<^verbatim>\<open>end\<close>.
  \<^item> The storage, the upload strategy, the status object, the channel manager, the Avro
    writer and the platform message utilities are not part of this file of the client:
    they are the fields of an environment record, and every call of \<^verbatim>\<open>kaa_logging.c\<close>
    into them is also appended to a log of external calls.
  \<^item> The logging macros (\<^verbatim>\<open>KAA_LOG_*\<close>) are not modelled, but for the storage call that
    is an argument of the warning in \<^verbatim>\<open>update_storage\<close>.
\<close>

subsection \<open>Machine types and error codes\<close>

type_synonym uint8_t = "8 word"
type_synonym uint16_t = "16 word"
type_synonym uint32_t = "32 word"
type_synonym size_t = "64 word"
type_synonym ssize_t = "64 word"

datatype kaa_error_t =
    KAA_ERR_NONE
  | KAA_ERR_NOMEM
  | KAA_ERR_BADDATA
  | KAA_ERR_BADPARAM
  | KAA_ERR_READ_FAILED
  | KAA_ERR_WRITE_FAILED
  | KAA_ERR_NOT_FOUND
  | KAA_ERR_NOT_INITIALIZED
  | KAA_ERR_BAD_STATE
  | KAA_ERR_INSUFFICIENT_BUFFER
  | KAA_ERR_OTHER int

datatype ext_log_upload_decision_t = NOOP | UPLOAD | CLEANUP

text \<open>\<^verbatim>\<open>#define KAA_LOGGING_RECEIVE_UPDATES_FLAG 0x01\<close> and \<^verbatim>\<open>#define KAA_MAX_PADDING_LENGTH 3\<close>.\<close>

definition KAA_LOGGING_RECEIVE_UPDATES_FLAG :: uint32_t where
  "KAA_LOGGING_RECEIVE_UPDATES_FLAG = 1"

definition KAA_MAX_PADDING_LENGTH :: size_t where
  "KAA_MAX_PADDING_LENGTH = 3"

text \<open>\<^verbatim>\<open>logging_sync_result_t\<close>: the value of \<^verbatim>\<open>LOGGING_RESULT_SUCCESS\<close>.\<close>

definition LOGGING_RESULT_SUCCESS :: uint8_t where
  "LOGGING_RESULT_SUCCESS = 0"

subsection \<open>Memory, cursors and big-endian stores\<close>

type_synonym memory = "nat \<Rightarrow> uint8_t"

text \<open>
  \<^verbatim>\<open>kaa_platform_message_writer_t\<close> and \<^verbatim>\<open>kaa_platform_message_reader_t\<close>: the fields
  \<^verbatim>\<open>current\<close> and \<^verbatim>\<open>end\<close> that \<^verbatim>\<open>kaa_logging.c\<close> reads and writes.
\<close>

record kaa_platform_message_cursor =
  current :: nat
  end_p :: nat

type_synonym kaa_platform_message_writer_t = kaa_platform_message_cursor
type_synonym kaa_platform_message_reader_t = kaa_platform_message_cursor

text \<open>\<^verbatim>\<open>*((uint16_t *) p) = KAA_HTONS(v)\<close>: the two bytes of \<open>v\<close>, most significant first.\<close>

definition store_htons :: "memory \<Rightarrow> nat \<Rightarrow> uint16_t \<Rightarrow> memory" where
  "store_htons m p v = m(p := ucast (drop_bit 8 v), p + 1 := ucast v)"

text \<open>\<^verbatim>\<open>*((uint32_t *) p) = KAA_HTONL(v)\<close>.\<close>

definition store_htonl :: "memory \<Rightarrow> nat \<Rightarrow> uint32_t \<Rightarrow> memory" where
  "store_htonl m p v =
     m(p := ucast (drop_bit 24 v), p + 1 := ucast (drop_bit 16 v),
       p + 2 := ucast (drop_bit 8 v), p + 3 := ucast v)"

text \<open>\<^verbatim>\<open>KAA_NTOHS(*((uint16_t *) p))\<close> and the 32-bit read a decoder of the header uses.\<close>

definition load_ntohs :: "memory \<Rightarrow> nat \<Rightarrow> uint16_t" where
  "load_ntohs m p = push_bit 8 (ucast (m p)) OR ucast (m (p + 1))"

definition load_ntohl :: "memory \<Rightarrow> nat \<Rightarrow> uint32_t" where
  "load_ntohl m p =
     push_bit 24 (ucast (m p)) OR push_bit 16 (ucast (m (p + 1))) OR
     push_bit 8 (ucast (m (p + 2))) OR ucast (m (p + 3))"

text \<open>The bytes a callee copies to a buffer that starts at address \<open>p\<close>.\<close>

fun write_bytes :: "memory \<Rightarrow> nat \<Rightarrow> uint8_t list \<Rightarrow> memory" where
  "write_bytes m p [] = m"
| "write_bytes m p (b # bs) = write_bytes (m(p := b)) (Suc p) bs"

text \<open>
  \<^verbatim>\<open>end - current\<close> is a \<^verbatim>\<open>ptrdiff_t\<close>: negative when the cursor has passed the end of the
  buffer.
\<close>

definition ptr_diff :: "nat \<Rightarrow> nat \<Rightarrow> ssize_t" where
  "ptr_diff p q = word_of_int (int p - int q)"

subsection \<open>The collector and its collaborators\<close>

text \<open>\<^verbatim>\<open>kaa_log_upload_properties_t\<close>.\<close>

record kaa_log_upload_properties_t =
  max_log_storage_volume :: size_t
  max_log_bucket_size :: size_t

text \<open>
  \<^verbatim>\<open>struct kaa_log_collector\<close>. The field \<open>log_storage\<close> is \<open>None\<close> for a \<^verbatim>\<open>NULL\<close> pointer
  and otherwise holds the state of the storage it points to. The strategy, status, channel
  manager and logger pointers are fixed by the environment.
\<close>

record 's kaa_log_collector =
  log_bucket_id :: uint16_t
  log_storage :: "'s option"
  log_properties :: kaa_log_upload_properties_t

text \<open>
  \<^verbatim>\<open>kaa_user_log_record_t\<close>: the callbacks \<^verbatim>\<open>get_size\<close> and \<^verbatim>\<open>serialize\<close> of an entry, as the
  size it reports and the bytes it writes.
\<close>

record kaa_user_log_record_t =
  get_size :: size_t
  serialize :: "uint8_t list"

text \<open>Every call that leaves \<^verbatim>\<open>kaa_logging.c\<close>, with its arguments and the error it returned.\<close>

datatype ext_call =
    Storage_allocate_log_record_buffer size_t kaa_error_t
  | Storage_deallocate_log_record_buffer
  | Storage_add_log_record size_t kaa_error_t
  | Storage_get_records_count
  | Storage_get_total_size
  | Storage_write_next_record size_t uint16_t kaa_error_t size_t
  | Storage_remove_by_bucket_id uint16_t
  | Storage_unmark_by_bucket_id uint16_t
  | Storage_shrink_to_size size_t kaa_error_t
  | Storage_release
  | Strategy_decide ext_log_upload_decision_t
  | Channel_get_sync_handler bool
  | Sync_handler_call
  | Status_get_log_bucket_id kaa_error_t
  | Avro_writer_memory bool
  | Write_extension_header kaa_error_t

fun is_storage_call :: "ext_call \<Rightarrow> bool" where
  "is_storage_call (Storage_allocate_log_record_buffer _ _) = True"
| "is_storage_call Storage_deallocate_log_record_buffer = True"
| "is_storage_call (Storage_add_log_record _ _) = True"
| "is_storage_call Storage_get_records_count = True"
| "is_storage_call Storage_get_total_size = True"
| "is_storage_call (Storage_write_next_record _ _ _ _) = True"
| "is_storage_call (Storage_remove_by_bucket_id _) = True"
| "is_storage_call (Storage_unmark_by_bucket_id _) = True"
| "is_storage_call (Storage_shrink_to_size _ _) = True"
| "is_storage_call Storage_release = True"
| "is_storage_call _ = False"

text \<open>
  The collaborators. A storage function receives the storage pointer (\<open>None\<close> for \<^verbatim>\<open>NULL\<close>)
  and returns the storage after the call.
  \<^item> \<open>storage_write_next_record s buffer_len bucket_id\<close> returns the error, the bytes of the
    record it copied to the buffer (their number is what it stores in \<^verbatim>\<open>*record_len\<close>) and
    the storage;
  \<^item> \<open>status_get_log_bucket_id v\<close> receives the value of the cell its result pointer
    designates and returns the error and the value of the cell after the call;
  \<^item> \<open>write_extension_header m w type options payload_size\<close> and \<open>write_alignment m w\<close>
    are \<^verbatim>\<open>kaa_platform_message_write_extension_header\<close> and
    \<^verbatim>\<open>kaa_platform_message_write_alignment\<close>; \<open>aligned_size_get\<close> is \<^verbatim>\<open>kaa_aligned_size_get\<close>;
  \<^item> \<open>EXTENSION_HEADER_SIZE\<close> and \<open>LOGGING_EXTENSION_TYPE\<close> are the constants
    \<^verbatim>\<open>KAA_EXTENSION_HEADER_SIZE\<close> and \<^verbatim>\<open>KAA_LOGGING_EXTENSION_TYPE\<close>.
\<close>

record 's kaa_env =
  storage_allocate_log_record_buffer :: "'s option \<Rightarrow> size_t \<Rightarrow> kaa_error_t \<times> 's option"
  storage_deallocate_log_record_buffer :: "'s option \<Rightarrow> size_t \<Rightarrow> 's option"
  storage_add_log_record :: "'s option \<Rightarrow> size_t \<Rightarrow> uint8_t list \<Rightarrow> kaa_error_t \<times> 's option"
  storage_get_records_count :: "'s option \<Rightarrow> size_t"
  storage_get_total_size :: "'s option \<Rightarrow> size_t"
  storage_write_next_record ::
    "'s option \<Rightarrow> size_t \<Rightarrow> uint16_t \<Rightarrow> kaa_error_t \<times> uint8_t list \<times> 's option"
  storage_remove_by_bucket_id :: "'s option \<Rightarrow> uint16_t \<Rightarrow> 's option"
  storage_unmark_by_bucket_id :: "'s option \<Rightarrow> uint16_t \<Rightarrow> 's option"
  storage_shrink_to_size :: "'s option \<Rightarrow> size_t \<Rightarrow> kaa_error_t \<times> 's option"
  strategy_decide :: "'s option \<Rightarrow> ext_log_upload_decision_t"
  channel_has_sync_handler :: bool
  status_get_log_bucket_id :: "uint16_t \<Rightarrow> kaa_error_t \<times> uint16_t"
  avro_writer_memory :: "size_t \<Rightarrow> bool"
  write_extension_header ::
    "memory \<Rightarrow> kaa_platform_message_writer_t \<Rightarrow> uint8_t \<Rightarrow> uint32_t \<Rightarrow> uint32_t
      \<Rightarrow> kaa_error_t \<times> memory \<times> kaa_platform_message_writer_t"
  write_alignment ::
    "memory \<Rightarrow> kaa_platform_message_writer_t \<Rightarrow> memory \<times> kaa_platform_message_writer_t"
  aligned_size_get :: "size_t \<Rightarrow> size_t"
  EXTENSION_HEADER_SIZE :: size_t
  LOGGING_EXTENSION_TYPE :: uint8_t

subsection \<open>update\_storage\<close>

text \<open>
  On \<^verbatim>\<open>CLEANUP\<close> the warning that is logged has \<^verbatim>\<open>ext_log_storage_get_total_size\<close> as an
  argument: the storage is asked for its size before it is shrunk.
\<close>

definition update_storage ::
  "'s kaa_env \<Rightarrow> 's kaa_log_collector \<Rightarrow> ext_call list \<Rightarrow> 's kaa_log_collector \<times> ext_call list"
where
  "update_storage env self tr =
     (let d = strategy_decide env (log_storage self);
          tr1 = tr @ [Strategy_decide d]
      in case d of
           CLEANUP \<Rightarrow>
             (let (error, s') = storage_shrink_to_size env (log_storage self)
                                  (max_log_storage_volume (log_properties self))
              in (self\<lparr>log_storage := s'\<rparr>,
                  tr1 @ [Storage_get_total_size,
                         Storage_shrink_to_size
                           (max_log_storage_volume (log_properties self)) error]))
         | UPLOAD \<Rightarrow>
             (if channel_has_sync_handler env
              then (self, tr1 @ [Channel_get_sync_handler True, Sync_handler_call])
              else (self, tr1 @ [Channel_get_sync_handler False]))
         | NOOP \<Rightarrow> (self, tr1))"

subsection \<open>kaa\_logging\_add\_record\<close>

definition kaa_logging_add_record ::
  "'s kaa_env \<Rightarrow> 's kaa_log_collector option \<Rightarrow> kaa_user_log_record_t option \<Rightarrow> ext_call list
    \<Rightarrow> kaa_error_t \<times> 's kaa_log_collector option \<times> ext_call list"
where
  "kaa_logging_add_record env self_p entry_p tr =
     (case (self_p, entry_p) of
        (Some self, Some entry) \<Rightarrow>
          (if log_storage self = None then (KAA_ERR_NOT_INITIALIZED, self_p, tr)
           else
             let size = get_size entry in
             if size = 0 then (KAA_ERR_BADDATA, self_p, tr)
             else
               let (error, s1) = storage_allocate_log_record_buffer env (log_storage self) size;
                   tr1 = tr @ [Storage_allocate_log_record_buffer size error]
               in
               if error \<noteq> KAA_ERR_NONE then (error, Some (self\<lparr>log_storage := s1\<rparr>), tr1)
               else if \<not> avro_writer_memory env size then
                 (KAA_ERR_NOMEM,
                  Some (self\<lparr>log_storage := storage_deallocate_log_record_buffer env s1 size\<rparr>),
                  tr1 @ [Avro_writer_memory False, Storage_deallocate_log_record_buffer])
               else
                 let tr2 = tr1 @ [Avro_writer_memory True];
                     (error2, s2) = storage_add_log_record env s1 size (serialize entry);
                     tr3 = tr2 @ [Storage_add_log_record size error2]
                 in
                 if error2 \<noteq> KAA_ERR_NONE then
                   (error2,
                    Some (self\<lparr>log_storage := storage_deallocate_log_record_buffer env s2 size\<rparr>),
                    tr3 @ [Storage_deallocate_log_record_buffer])
                 else
                   (let (self', tr4) = update_storage env (self\<lparr>log_storage := s2\<rparr>) tr3
                    in (KAA_ERR_NONE, Some self', tr4)))
      | _ \<Rightarrow> (KAA_ERR_BADPARAM, self_p, tr))"

subsection \<open>kaa\_logging\_request\_get\_size\<close>

text \<open>
  The result pointer \<^verbatim>\<open>expected_size\<close> is \<open>None\<close> for \<^verbatim>\<open>NULL\<close> and otherwise holds the value of
  the cell; the function returns the cell after the call.
\<close>

definition kaa_logging_request_get_size ::
  "'s kaa_env \<Rightarrow> 's kaa_log_collector option \<Rightarrow> size_t option \<Rightarrow> ext_call list
    \<Rightarrow> kaa_error_t \<times> size_t option \<times> ext_call list"
where
  "kaa_logging_request_get_size env self_p expected_size_p tr =
     (case (self_p, expected_size_p) of
        (Some self, Some _) \<Rightarrow>
          (if log_storage self = None then (KAA_ERR_NOT_INITIALIZED, expected_size_p, tr)
           else
             let expected0 = EXTENSION_HEADER_SIZE env + 4;
                 records_count = storage_get_records_count env (log_storage self);
                 total_size = storage_get_total_size env (log_storage self);
                 actual_size = records_count * 4 + records_count * KAA_MAX_PADDING_LENGTH
                               + total_size
             in (KAA_ERR_NONE,
                 Some (expected0 +
                       (if actual_size < max_log_bucket_size (log_properties self)
                        then actual_size
                        else max_log_bucket_size (log_properties self))),
                 tr @ [Storage_get_records_count, Storage_get_total_size]))
      | _ \<Rightarrow> (KAA_ERR_BADPARAM, expected_size_p, tr))"

subsection \<open>kaa\_log\_collector\_create and kaa\_logging\_init\<close>

text \<open>
  \<^verbatim>\<open>kaa_log_collector_create\<close>: the first argument says whether the result pointer is not
  \<^verbatim>\<open>NULL\<close>, the second whether \<^verbatim>\<open>KAA_CALLOC\<close> returned memory (which is zeroed).
\<close>

definition kaa_log_collector_create ::
  "bool \<Rightarrow> bool \<Rightarrow> kaa_error_t \<times> 's kaa_log_collector option"
where
  "kaa_log_collector_create log_collector_p calloc_ok =
     (if \<not> log_collector_p then (KAA_ERR_BADPARAM, None)
      else if \<not> calloc_ok then (KAA_ERR_NOMEM, None)
      else (KAA_ERR_NONE,
            Some \<lparr>log_bucket_id = 0, log_storage = None,
                  log_properties = \<lparr>max_log_storage_volume = 0, max_log_bucket_size = 0\<rparr>\<rparr>))"

text \<open>
  \<^verbatim>\<open>kaa_logging_init\<close>: \<open>upload_strategy\<close> says whether the strategy pointer is not \<^verbatim>\<open>NULL\<close>.
\<close>

definition kaa_logging_init ::
  "'s kaa_log_collector option \<Rightarrow> 's option \<Rightarrow> bool \<Rightarrow> kaa_log_upload_properties_t option
    \<Rightarrow> ext_call list \<Rightarrow> kaa_error_t \<times> 's kaa_log_collector option \<times> ext_call list"
where
  "kaa_logging_init self_p storage upload_strategy properties_p tr =
     (case (self_p, storage, properties_p) of
        (Some self, Some s, Some properties) \<Rightarrow>
          (if \<not> upload_strategy then (KAA_ERR_BADPARAM, self_p, tr)
           else (KAA_ERR_NONE,
                 Some (self\<lparr>log_storage := Some s, log_properties := properties\<rparr>),
                 tr @ [Storage_release]))
      | _ \<Rightarrow> (KAA_ERR_BADPARAM, self_p, tr))"

subsection \<open>kaa\_logging\_request\_serialize\<close>

text \<open>
  The variables of the extraction loop: the storage, \<^verbatim>\<open>tmp_writer\<close>, the memory,
  \<^verbatim>\<open>remaining_size\<close>, \<^verbatim>\<open>records_count\<close> and the log of external calls.
\<close>

record 's serialize_state =
  ss_storage :: "'s option"
  ss_writer :: kaa_platform_message_writer_t
  ss_mem :: memory
  ss_remaining_size :: ssize_t
  ss_records_count :: uint16_t
  ss_calls :: "ext_call list"

text \<open>
  The loop \<^verbatim>\<open>while (!error)\<close>. It ends only when the storage returns an error, so it is a
  partial function: \<open>None\<close> when the storage never does. The result \<open>(KAA_ERR_NONE, st)\<close>
  is the normal exit of the loop; any other error is the \<^verbatim>\<open>return error\<close> inside it.
  The argument \<^verbatim>\<open>remaining_size - sizeof(uint32_t)\<close> is computed in \<^verbatim>\<open>size_t\<close>.
\<close>

partial_function (option) serialize_records ::
  "'s kaa_env \<Rightarrow> uint16_t \<Rightarrow> 's serialize_state \<Rightarrow> (kaa_error_t \<times> 's serialize_state) option"
where
  "serialize_records env bucket_id st =
     (case storage_write_next_record env (ss_storage st) (ss_remaining_size st - 4) bucket_id of
        (error, bytes, s') \<Rightarrow>
          (let record_len = (of_nat (length bytes) :: size_t);
               st1 = st\<lparr>ss_storage := s',
                        ss_mem := write_bytes (ss_mem st) (current (ss_writer st) + 4) bytes,
                        ss_calls := ss_calls st @
                          [Storage_write_next_record (ss_remaining_size st - 4) bucket_id
                             error record_len]\<rparr>
           in if error = KAA_ERR_NONE then
                (case write_alignment env
                        (store_htonl (ss_mem st1) (current (ss_writer st)) (ucast record_len))
                        ((ss_writer st)\<lparr>current := current (ss_writer st) + (4 + unat record_len)\<rparr>)
                 of (m2, w2) \<Rightarrow>
                   serialize_records env bucket_id
                     (st1\<lparr>ss_records_count := ss_records_count st + 1,
                          ss_mem := m2,
                          ss_writer := w2,
                          ss_remaining_size :=
                            ss_remaining_size st - (aligned_size_get env record_len + 4)\<rparr>))
              else if error = KAA_ERR_NOT_FOUND \<or> error = KAA_ERR_INSUFFICIENT_BUFFER then
                (if ss_records_count st = 0 then Some (error, st1)
                 else Some (KAA_ERR_NONE, st1))
              else Some (error, st1)))"

declare serialize_records.simps [code]

text \<open>
  The part of \<^verbatim>\<open>kaa_logging_request_serialize\<close> before the loop: the extension header,
  the bucket id and the byte budget. \<open>Inl\<close> is an early \<^verbatim>\<open>return\<close> (the error, the collector,
  the memory and the call log at that point); \<open>Inr\<close> carries the collector with its new
  bucket id, the address \<^verbatim>\<open>records_count_p\<close> and the variables the loop starts from.
  The comparison of \<^verbatim>\<open>max_log_bucket_size\<close> (a \<^verbatim>\<open>size_t\<close>) with \<^verbatim>\<open>end - current\<close> is
  unsigned, as C converts the signed operand.
\<close>

definition serialize_prologue ::
  "'s kaa_env \<Rightarrow> 's kaa_log_collector \<Rightarrow> kaa_platform_message_writer_t \<Rightarrow> memory
    \<Rightarrow> ext_call list
    \<Rightarrow> (kaa_error_t \<times> 's kaa_log_collector \<times> memory \<times> ext_call list)
        + ('s kaa_log_collector \<times> nat \<times> 's serialize_state)"
where
  "serialize_prologue env self writer m tr =
     (case write_extension_header env m writer (LOGGING_EXTENSION_TYPE env)
             KAA_LOGGING_RECEIVE_UPDATES_FLAG 0 of
        (error, m1, tmp_writer) \<Rightarrow>
          let tr1 = tr @ [Write_extension_header error] in
          if error \<noteq> KAA_ERR_NONE then Inl (KAA_ERR_WRITE_FAILED, self, m1, tr1)
          else
            case (if log_bucket_id self = 0
                  then (case status_get_log_bucket_id env (log_bucket_id self) of
                          (e, v) \<Rightarrow> (e, v, tr1 @ [Status_get_log_bucket_id e]))
                  else (KAA_ERR_NONE, log_bucket_id self, tr1)) of
              (seed_error, id0, tr2) \<Rightarrow>
                if seed_error \<noteq> KAA_ERR_NONE
                then Inl (KAA_ERR_BAD_STATE, self\<lparr>log_bucket_id := id0\<rparr>, m1, tr2)
                else
                  let self1 = self\<lparr>log_bucket_id := id0 + 1\<rparr>;
                      m2 = store_htons m1 (current tmp_writer) (log_bucket_id self1);
                      records_count_p = current tmp_writer + 2;
                      tmp_writer2 = tmp_writer\<lparr>current := current tmp_writer + 4\<rparr>;
                      avail = ptr_diff (end_p tmp_writer2) (current tmp_writer2);
                      remaining_size =
                        (if max_log_bucket_size (log_properties self) < avail
                         then max_log_bucket_size (log_properties self) else avail)
                  in Inr (self1, records_count_p,
                          \<lparr>ss_storage = log_storage self, ss_writer = tmp_writer2,
                           ss_mem = m2, ss_remaining_size = remaining_size,
                           ss_records_count = 0, ss_calls = tr2\<rparr>))"

text \<open>
  \<^verbatim>\<open>kaa_logging_request_serialize\<close>: the checks of the arguments, the part before the loop,
  the loop, and the backpatching of the length and of the record count. On an error the
  caller's writer is left as it was; the memory, the storage and the bucket id keep what
  was done to them. The result is \<open>None\<close> when the loop does not end.
\<close>

definition kaa_logging_request_serialize ::
  "'s kaa_env \<Rightarrow> 's kaa_log_collector option \<Rightarrow> kaa_platform_message_writer_t option
    \<Rightarrow> memory \<Rightarrow> ext_call list
    \<Rightarrow> (kaa_error_t \<times> 's kaa_log_collector option \<times> kaa_platform_message_writer_t option
         \<times> memory \<times> ext_call list) option"
where
  "kaa_logging_request_serialize env self_p writer_p m tr =
     (case (self_p, writer_p) of
        (Some self, Some writer) \<Rightarrow>
          (if log_storage self = None then Some (KAA_ERR_NOT_INITIALIZED, self_p, writer_p, m, tr)
           else
             (case serialize_prologue env self writer m tr of
                Inl (error, self', m', tr') \<Rightarrow> Some (error, Some self', writer_p, m', tr')
              | Inr (self1, records_count_p, st0) \<Rightarrow>
                  (case serialize_records env (log_bucket_id self1) st0 of
                     None \<Rightarrow> None
                   | Some (error2, st) \<Rightarrow>
                       (let self2 = self1\<lparr>log_storage := ss_storage st\<rparr> in
                        if error2 \<noteq> KAA_ERR_NONE
                        then Some (error2, Some self2, writer_p, ss_mem st, ss_calls st)
                        else
                          let extension_size_p = current writer + 4;
                              total_size =
                                ptr_diff (current (ss_writer st)) (current writer)
                                - EXTENSION_HEADER_SIZE env;
                              m3 = store_htonl (ss_mem st) extension_size_p (ucast total_size);
                              m4 = store_htons m3 records_count_p (ss_records_count st)
                          in Some (KAA_ERR_NONE, Some self2, Some (ss_writer st), m4,
                                   ss_calls st)))))
      | _ \<Rightarrow> Some (KAA_ERR_BADPARAM, self_p, writer_p, m, tr))"

subsection \<open>kaa\_logging\_handle\_server\_sync\<close>

definition kaa_logging_handle_server_sync ::
  "'s kaa_env \<Rightarrow> 's kaa_log_collector option \<Rightarrow> kaa_platform_message_reader_t option
    \<Rightarrow> uint32_t \<Rightarrow> size_t \<Rightarrow> memory \<Rightarrow> ext_call list
    \<Rightarrow> kaa_error_t \<times> 's kaa_log_collector option \<times> kaa_platform_message_reader_t option
        \<times> ext_call list"
where
  "kaa_logging_handle_server_sync env self_p reader_p extension_options extension_length m tr =
     (case (self_p, reader_p) of
        (Some self, Some reader) \<Rightarrow>
          (if 4 \<le> extension_length then
             let id = load_ntohs m (current reader);
                 reader1 = reader\<lparr>current := current reader + 2\<rparr>;
                 result = m (current reader1);
                 reader2 = reader1\<lparr>current := current reader1 + 2\<rparr>;
                 (s', tr1) =
                   (if result = LOGGING_RESULT_SUCCESS
                    then (storage_remove_by_bucket_id env (log_storage self) id,
                          tr @ [Storage_remove_by_bucket_id id])
                    else (storage_unmark_by_bucket_id env (log_storage self) id,
                          tr @ [Storage_unmark_by_bucket_id id]));
                 (self', tr2) = update_storage env (self\<lparr>log_storage := s'\<rparr>) tr1
             in (KAA_ERR_NONE, Some self', Some reader2, tr2)
           else (KAA_ERR_NONE, self_p, reader_p, tr))
      | _ \<Rightarrow> (KAA_ERR_BADPARAM, self_p, reader_p, tr))"

subsection \<open>Reading the log of external calls\<close>

text \<open>
  An extraction is a call of \<^verbatim>\<open>ext_log_storage_write_next_record\<close>; it packs a record when
  it returns \<^verbatim>\<open>KAA_ERR_NONE\<close>.
\<close>

fun is_extraction :: "uint16_t \<Rightarrow> ext_call \<Rightarrow> bool" where
  "is_extraction bucket_id (Storage_write_next_record len b e n) = (b = bucket_id)"
| "is_extraction bucket_id _ = False"

fun is_packed :: "ext_call \<Rightarrow> bool" where
  "is_packed (Storage_write_next_record len b e n) = (e = KAA_ERR_NONE)"
| "is_packed _ = False"

definition packed_records :: "ext_call list \<Rightarrow> nat" where
  "packed_records calls = length (filter is_packed calls)"

text \<open>
  The bytes of the length prefixes and payloads of the records a list of calls packed:
  4 plus the record length for each.
\<close>

fun framed_bytes :: "ext_call list \<Rightarrow> nat" where
  "framed_bytes [] = 0"
| "framed_bytes (Storage_write_next_record len b e n # calls) =
     (if e = KAA_ERR_NONE then 4 + unat n else 0) + framed_bytes calls"
| "framed_bytes (c # calls) = framed_bytes calls"

subsection \<open>Contracts of the cursor utilities\<close>

text \<open>
  Modelled from the spec: \<^verbatim>\<open>kaa_platform_message_write_extension_header\<close> and
  \<^verbatim>\<open>kaa_platform_message_write_alignment\<close> are not in this file of the client (section 1 of
  the specification takes them as correct utilities). What the wire format of sections 4.2
  and 6 asks of them: a header that is written advances the cursor by the header size,
  which covers the four bytes before the length field and the four bytes of the length
  field; the alignment advances the cursor by 0 to 3 bytes.
\<close>

definition header_contract :: "'s kaa_env \<Rightarrow> bool" where
  "header_contract env \<longleftrightarrow>
     8 \<le> unat (EXTENSION_HEADER_SIZE env) \<and>
     (\<forall>m w t opt len.
        fst (write_extension_header env m w t opt len) = KAA_ERR_NONE \<longrightarrow>
        current (snd (snd (write_extension_header env m w t opt len))) =
          current w + unat (EXTENSION_HEADER_SIZE env))"

definition alignment_contract :: "'s kaa_env \<Rightarrow> bool" where
  "alignment_contract env \<longleftrightarrow>
     (\<forall>m w. current w \<le> current (snd (write_alignment env m w)) \<and>
            current (snd (write_alignment env m w)) \<le> current w + 3)"

subsection \<open>A reference environment\<close>

text \<open>
  Modelled from the spec: the Storage Facade, the Upload Strategy, the status collaborator
  and the cursor utilities have no implementation in this file of the client. The
  reference environment below follows the contracts of the specification (sections 4.2
  and 6) and serves to run the functions above on concrete inputs.

  The reference storage is the list of its records, oldest first, each with its payload
  and the bucket id it is tagged with (\<open>None\<close> while pending).
\<close>

type_synonym ref_storage = "(uint8_t list \<times> uint16_t option) list"

text \<open>
  Extract-and-tag the next eligible record under a size limit: no pending record is
  \<^verbatim>\<open>KAA_ERR_NOT_FOUND\<close>, a pending record longer than \<open>buffer_len\<close> is
  \<^verbatim>\<open>KAA_ERR_INSUFFICIENT_BUFFER\<close>.
\<close>

fun ref_write_next_record ::
  "ref_storage \<Rightarrow> size_t \<Rightarrow> uint16_t \<Rightarrow> kaa_error_t \<times> uint8_t list \<times> ref_storage"
where
  "ref_write_next_record [] buffer_len bucket_id = (KAA_ERR_NOT_FOUND, [], [])"
| "ref_write_next_record ((payload, tag) # rs) buffer_len bucket_id =
     (if tag = None then
        (if (of_nat (length payload) :: size_t) \<le> buffer_len
         then (KAA_ERR_NONE, payload, (payload, Some bucket_id) # rs)
         else (KAA_ERR_INSUFFICIENT_BUFFER, [], (payload, tag) # rs))
      else (case ref_write_next_record rs buffer_len bucket_id of
              (e, bytes, rs') \<Rightarrow> (e, bytes, (payload, tag) # rs')))"

definition ref_total_size :: "ref_storage \<Rightarrow> size_t" where
  "ref_total_size rs = of_nat (sum_list (map (\<lambda>r. length (fst r)) rs))"

text \<open>Shrinking drops the oldest records until the occupancy fits the volume.\<close>

fun ref_shrink_to_size :: "ref_storage \<Rightarrow> size_t \<Rightarrow> ref_storage" where
  "ref_shrink_to_size [] volume = []"
| "ref_shrink_to_size (r # rs) volume =
     (if ref_total_size (r # rs) \<le> volume then r # rs else ref_shrink_to_size rs volume)"

text \<open>
  The extension header of the reference environment: a type byte, three bytes of options
  and the four bytes of the payload length; eight bytes, written only when they fit.
\<close>

definition ref_write_extension_header ::
  "memory \<Rightarrow> kaa_platform_message_writer_t \<Rightarrow> uint8_t \<Rightarrow> uint32_t \<Rightarrow> uint32_t
    \<Rightarrow> kaa_error_t \<times> memory \<times> kaa_platform_message_writer_t"
where
  "ref_write_extension_header m w extension_type options payload_size =
     (if current w + 8 \<le> end_p w
      then (KAA_ERR_NONE,
            store_htonl
              ((store_htonl m (current w) options)(current w := extension_type))
              (current w + 4) payload_size,
            w\<lparr>current := current w + 8\<rparr>)
      else (KAA_ERR_WRITE_FAILED, m, w))"

text \<open>Zero padding up to the next address that is a multiple of four, when it fits.\<close>

definition ref_write_alignment ::
  "memory \<Rightarrow> kaa_platform_message_writer_t \<Rightarrow> memory \<times> kaa_platform_message_writer_t"
where
  "ref_write_alignment m w =
     (let padding = (4 - current w mod 4) mod 4
      in if current w + padding \<le> end_p w
         then (write_bytes m (current w) (replicate padding 0),
               w\<lparr>current := current w + padding\<rparr>)
         else (m, w))"

definition ref_aligned_size_get :: "size_t \<Rightarrow> size_t" where
  "ref_aligned_size_get s = s + (4 - s mod 4) mod 4"

text \<open>
  The reference environment, for a strategy verdict \<open>d\<close> and a persisted bucket id \<open>seed\<close>.
  Its storage functions answer \<^verbatim>\<open>KAA_ERR_BADPARAM\<close> to a \<^verbatim>\<open>NULL\<close> storage.
\<close>

definition ref_env :: "ext_log_upload_decision_t \<Rightarrow> uint16_t \<Rightarrow> ref_storage kaa_env" where
  "ref_env d seed =
     \<lparr>storage_allocate_log_record_buffer =
        (\<lambda>s size. case s of None \<Rightarrow> (KAA_ERR_BADPARAM, None) | Some rs \<Rightarrow> (KAA_ERR_NONE, s)),
      storage_deallocate_log_record_buffer = (\<lambda>s size. s),
      storage_add_log_record =
        (\<lambda>s size bytes. case s of None \<Rightarrow> (KAA_ERR_BADPARAM, None)
                         | Some rs \<Rightarrow> (KAA_ERR_NONE, Some (rs @ [(bytes, None)]))),
      storage_get_records_count =
        (\<lambda>s. case s of None \<Rightarrow> 0 | Some rs \<Rightarrow> of_nat (length rs)),
      storage_get_total_size =
        (\<lambda>s. case s of None \<Rightarrow> 0 | Some rs \<Rightarrow> ref_total_size rs),
      storage_write_next_record =
        (\<lambda>s buffer_len bucket_id. case s of None \<Rightarrow> (KAA_ERR_BADPARAM, [], None)
           | Some rs \<Rightarrow> (case ref_write_next_record rs buffer_len bucket_id of
                          (e, bytes, rs') \<Rightarrow> (e, bytes, Some rs'))),
      storage_remove_by_bucket_id =
        (\<lambda>s bucket_id. map_option (filter (\<lambda>r. snd r \<noteq> Some bucket_id)) s),
      storage_unmark_by_bucket_id =
        (\<lambda>s bucket_id.
           map_option (map (\<lambda>r. if snd r = Some bucket_id then (fst r, None) else r)) s),
      storage_shrink_to_size =
        (\<lambda>s volume. case s of None \<Rightarrow> (KAA_ERR_BADPARAM, None)
           | Some rs \<Rightarrow> (KAA_ERR_NONE, Some (ref_shrink_to_size rs volume))),
      strategy_decide = (\<lambda>s. d),
      channel_has_sync_handler = True,
      status_get_log_bucket_id = (\<lambda>v. (KAA_ERR_NONE, seed)),
      avro_writer_memory = (\<lambda>size. True),
      write_extension_header = ref_write_extension_header,
      write_alignment = ref_write_alignment,
      aligned_size_get = ref_aligned_size_get,
      EXTENSION_HEADER_SIZE = 8,
      LOGGING_EXTENSION_TYPE = 4\<rparr>"

subsection \<open>Sample inputs\<close>

text \<open>
  A collector as \<^verbatim>\<open>kaa_log_collector_create\<close> leaves it, and collectors initialised with a
  reference storage that holds pending records.
\<close>

definition fresh_collector :: "ref_storage kaa_log_collector" where
  "fresh_collector =
     \<lparr>log_bucket_id = 0, log_storage = None,
      log_properties = \<lparr>max_log_storage_volume = 0, max_log_bucket_size = 0\<rparr>\<rparr>"

definition sample_collector :: "ref_storage kaa_log_collector" where
  "sample_collector =
     \<lparr>log_bucket_id = 0,
      log_storage = Some [([1, 2, 3, 4, 5, 6, 7, 8, 9, 10, 11, 12], None),
                          ([1, 2, 3, 4, 5, 6, 7, 8], None)],
      log_properties = \<lparr>max_log_storage_volume = 1000, max_log_bucket_size = 16\<rparr>\<rparr>"

definition sample_entry :: kaa_user_log_record_t where
  "sample_entry = \<lparr>get_size = 3, serialize = [7, 8, 9]\<rparr>"

text \<open>An acknowledgment: bucket id \<open>0x0102\<close>, then the result byte and one more byte.\<close>

definition ack_memory :: "uint8_t \<Rightarrow> memory" where
  "ack_memory result = (\<lambda>a. 0)(0 := 1, 1 := 2, 2 := result, 3 := 0)"

text \<open>A collector whose first record is in flight in bucket \<open>0x0102 = 258\<close>.\<close>

definition tagged_collector :: "ref_storage kaa_log_collector" where
  "tagged_collector =
     \<lparr>log_bucket_id = 258,
      log_storage = Some [([1, 2, 3], Some 258), ([4, 5], None)],
      log_properties = \<lparr>max_log_storage_volume = 1000, max_log_bucket_size = 16\<rparr>\<rparr>"

text \<open>
  A collector with an empty storage, and one with three pending records of 8 bytes under a
  maximum bucket size of 16: a call of \<^verbatim>\<open>kaa_logging_request_serialize\<close> packs one of
  them (after it 4 bytes of the budget remain, none for a payload).
\<close>

definition empty_collector :: "ref_storage kaa_log_collector" where
  "empty_collector =
     \<lparr>log_bucket_id = 0, log_storage = Some [],
      log_properties = \<lparr>max_log_storage_volume = 1000, max_log_bucket_size = 16\<rparr>\<rparr>"

definition three_collector :: "ref_storage kaa_log_collector" where
  "three_collector =
     \<lparr>log_bucket_id = 0,
      log_storage = Some [([1, 1, 1, 1, 1, 1, 1, 1], None), ([2, 2, 2, 2, 2, 2, 2, 2], None),
                          ([3, 3, 3, 3, 3, 3, 3, 3], None)],
      log_properties = \<lparr>max_log_storage_volume = 1000, max_log_bucket_size = 16\<rparr>\<rparr>"

text \<open>
  The scenario of the specification: two records of 10 and 20 bytes, a budget of 1024.
\<close>

definition scenario_collector :: "ref_storage kaa_log_collector" where
  "scenario_collector =
     \<lparr>log_bucket_id = 0,
      log_storage = Some [(replicate 10 170, None), (replicate 20 187, None)],
      log_properties = \<lparr>max_log_storage_volume = 4096, max_log_bucket_size = 1024\<rparr>\<rparr>"

text \<open>
  A collector with \<open>k\<close> pending records of 4 bytes under a maximum bucket size of one
  mebibyte, and a writer over two mebibytes: the budget holds 131072 such records.
\<close>

definition many_collector :: "nat \<Rightarrow> ref_storage kaa_log_collector" where
  "many_collector k =
     \<lparr>log_bucket_id = 0,
      log_storage = Some (replicate k ([1, 2, 3, 4], None)),
      log_properties = \<lparr>max_log_storage_volume = 4194304, max_log_bucket_size = 1048576\<rparr>\<rparr>"

definition large_writer :: kaa_platform_message_writer_t where
  "large_writer = \<lparr>current = 0, end_p = 2097152\<rparr>"

definition sample_writer :: kaa_platform_message_writer_t where
  "sample_writer = \<lparr>current = 0, end_p = 1024\<rparr>"

text \<open>The next call of \<^verbatim>\<open>kaa_logging_request_serialize\<close>, on what the last one left.\<close>

definition serialize_again ::
  "'s kaa_env
    \<Rightarrow> (kaa_error_t \<times> 's kaa_log_collector option \<times> kaa_platform_message_writer_t option
         \<times> memory \<times> ext_call list) option
    \<Rightarrow> (kaa_error_t \<times> 's kaa_log_collector option \<times> kaa_platform_message_writer_t option
         \<times> memory \<times> ext_call list) option"
where
  "serialize_again env r =
     (case r of
        None \<Rightarrow> None
      | Some (e, self_p, writer_p, m, tr) \<Rightarrow>
          kaa_logging_request_serialize env self_p writer_p m tr)"

text \<open>The error and the bucket id of the collector after a call.\<close>

definition error_and_bucket_id ::
  "(kaa_error_t \<times> 's kaa_log_collector option \<times> kaa_platform_message_writer_t option
     \<times> memory \<times> ext_call list) option
    \<Rightarrow> (kaa_error_t \<times> uint16_t option) option"
where
  "error_and_bucket_id r =
     map_option (\<lambda>(e, self_p, writer_p, m, tr). (e, map_option log_bucket_id self_p)) r"

section \<open>Properties\<close>

subsection \<open>Auxiliary facts\<close>

lemma unat_ucast_byte16: "unat (ucast (a :: uint8_t) :: uint16_t) = unat a"
  by (simp add: unsigned_ucast_eq take_bit_nat_eq_self_iff)
     (use unsigned_less [of a, where 'a = nat] in simp)

lemma load_ntohs_big_endian:
  "unat (load_ntohs m p) = 256 * unat (m p) + unat (m (p + 1))"
proof -
  define a where "a = m p"
  define b where "b = m (p + 1)"
  have disj: "push_bit 8 (ucast a :: uint16_t) AND ucast b = 0"
    by (rule bit_eqI) (auto simp add: bit_simps dest: bit_imp_le_length)
  have a_less: "unat a < 256"
    using unsigned_less [of a, where 'a = nat] by simp
  have hi: "unat (push_bit 8 (ucast a :: uint16_t)) = 256 * unat a"
  proof -
    from a_less have "unat (ucast a :: uint16_t) * unat (256 :: uint16_t) < 2 ^ LENGTH(16)"
      by (simp add: unat_ucast_byte16)
    then have "unat ((ucast a :: uint16_t) * 256) =
               unat (ucast a :: uint16_t) * unat (256 :: uint16_t)"
      by (simp only: unat_mult_lem)
    then show ?thesis by (simp add: push_bit_eq_mult unat_ucast_byte16)
  qed
  have lo: "unat (ucast b :: uint16_t) < 256"
    using unsigned_less [of b, where 'a = nat] by (simp add: unat_ucast_byte16)
  from hi lo a_less
  have "unat (push_bit 8 (ucast a :: uint16_t)) + unat (ucast b :: uint16_t) < 2 ^ LENGTH(16)"
    by simp
  then have "unat (push_bit 8 (ucast a :: uint16_t) + ucast b) =
             unat (push_bit 8 (ucast a :: uint16_t)) + unat (ucast b :: uint16_t)"
    by (simp only: unat_add_lem)
  then show ?thesis
    using disj hi
    by (simp add: load_ntohs_def a_def b_def disjunctive_add_eq_or unat_ucast_byte16)
qed

lemma unat_of_nat_size_t: "k < 2 ^ 64 \<Longrightarrow> unat (of_nat k :: size_t) = k"
  by (simp add: unat_of_nat)

lemma unat_actual_size:
  fixes c t :: size_t
  assumes "unat c * 4 + unat c * 3 + unat t < 2 ^ 64"
  shows "unat (c * 4 + c * 3 + t) = unat c * 4 + unat c * 3 + unat t"
proof -
  have "c * 4 + c * 3 + t = of_nat (unat c * 4 + unat c * 3 + unat t)"
    by simp
  then show ?thesis
    using assms unat_of_nat_size_t by metis
qed

lemma unat_min_size_t:
  fixes a b :: size_t
  shows "unat (min a b) = min (unat a) (unat b)"
  by (simp add: min_def word_le_nat_alt)

lemma if_less_min: "(if a < b then a else b) = min a (b :: size_t)"
  by (auto simp add: min_def)

lemma unat_estimate:
  fixes h c t b :: size_t
  assumes "unat c * 4 + unat c * 3 + unat t < 2 ^ 64"
    and "unat h + 4 + min (unat c * 4 + unat c * 3 + unat t) (unat b) < 2 ^ 64"
  shows "unat (h + 4 + min (c * 4 + c * 3 + t) b) =
         unat h + 4 + min (unat c * 4 + unat c * 3 + unat t) (unat b)"
proof -
  have m: "unat (min (c * 4 + c * 3 + t) b) = min (unat c * 4 + unat c * 3 + unat t) (unat b)"
    by (simp only: unat_min_size_t unat_actual_size [OF assms(1)])
  have "h + 4 + min (c * 4 + c * 3 + t) b =
        of_nat (unat h + 4 + unat (min (c * 4 + c * 3 + t) b))"
    by simp
  then have "unat (h + 4 + min (c * 4 + c * 3 + t) b) =
        unat h + 4 + unat (min (c * 4 + c * 3 + t) b)"
    using assms(2) unat_of_nat_size_t m by metis
  then show ?thesis using m by simp
qed

text \<open>
  \<^verbatim>\<open>update_storage\<close> asks the strategy first, on the storage as it is then, and leaves the
  bucket id alone.
\<close>

lemma update_storage_decides:
  "\<exists>self' rest.
     update_storage env self tr =
       (self', tr @ [Strategy_decide (strategy_decide env (log_storage self))] @ rest) \<and>
     log_bucket_id self' = log_bucket_id self"
  by (cases "strategy_decide env (log_storage self)")
     (auto simp add: update_storage_def Let_def split: prod.splits)

subsection \<open>Adding a record\<close>

text \<open>
  Claim C7. For a record whose serialized size is zero, \<^verbatim>\<open>kaa_logging_add_record\<close> on a
  collector with a configured storage fails with \<^verbatim>\<open>KAA_ERR_BADDATA\<close>; the collector, its
  storage included, is what it was, and no external call is made: the call log is unchanged.
\<close>

theorem add_record_zero_size:
  "log_storage self \<noteq> None \<Longrightarrow> get_size entry = 0 \<Longrightarrow>
   kaa_logging_add_record env (Some self) (Some entry) tr = (KAA_ERR_BADDATA, Some self, tr)"
  by (simp add: kaa_logging_add_record_def)

theorem add_record_zero_size_witness:
  "kaa_logging_add_record (ref_env UPLOAD 0) (Some sample_collector)
     (Some \<lparr>get_size = 0, serialize = []\<rparr>) [] = (KAA_ERR_BADDATA, Some sample_collector, [])"
  using add_record_zero_size
    [of sample_collector "\<lparr>get_size = 0, serialize = []\<rparr>" "ref_env UPLOAD 0" "[]"]
  by (simp add: sample_collector_def)

text \<open>
  Claim C8. When a step of \<^verbatim>\<open>kaa_logging_add_record\<close> fails, the call returns the failure,
  the strategy is not consulted, and the buffer is given back when one was allocated:
  \<^item> the allocation fails with \<open>e\<close>: the result is \<open>e\<close>, and the allocation is the only call;
  \<^item> the Avro writer cannot be made: the result is \<^verbatim>\<open>KAA_ERR_NOMEM\<close>, the record is never
    handed to \<^verbatim>\<open>ext_log_storage_add_log_record\<close>, and the last call deallocates the buffer;
  \<^item> the registration fails with \<open>e\<close>: the result is \<open>e\<close>, and the last call deallocates the
    buffer.
\<close>

theorem add_record_failures:
  "log_storage self \<noteq> None \<and> get_size entry \<noteq> 0 \<longrightarrow>
   (\<forall>e s1.
      storage_allocate_log_record_buffer env (log_storage self) (get_size entry) = (e, s1) \<longrightarrow>
      (e \<noteq> KAA_ERR_NONE \<longrightarrow>
         kaa_logging_add_record env (Some self) (Some entry) tr =
           (e, Some (self\<lparr>log_storage := s1\<rparr>),
            tr @ [Storage_allocate_log_record_buffer (get_size entry) e])) \<and>
      (e = KAA_ERR_NONE \<and> \<not> avro_writer_memory env (get_size entry) \<longrightarrow>
         kaa_logging_add_record env (Some self) (Some entry) tr =
           (KAA_ERR_NOMEM,
            Some (self\<lparr>log_storage :=
                    storage_deallocate_log_record_buffer env s1 (get_size entry)\<rparr>),
            tr @ [Storage_allocate_log_record_buffer (get_size entry) KAA_ERR_NONE,
                  Avro_writer_memory False, Storage_deallocate_log_record_buffer])) \<and>
      (e = KAA_ERR_NONE \<and> avro_writer_memory env (get_size entry) \<longrightarrow>
         (\<forall>e2 s2.
            storage_add_log_record env s1 (get_size entry) (serialize entry) = (e2, s2) \<and>
            e2 \<noteq> KAA_ERR_NONE \<longrightarrow>
            kaa_logging_add_record env (Some self) (Some entry) tr =
              (e2,
               Some (self\<lparr>log_storage :=
                       storage_deallocate_log_record_buffer env s2 (get_size entry)\<rparr>),
               tr @ [Storage_allocate_log_record_buffer (get_size entry) KAA_ERR_NONE,
                     Avro_writer_memory True,
                     Storage_add_log_record (get_size entry) e2,
                     Storage_deallocate_log_record_buffer]))))"
  by (simp add: kaa_logging_add_record_def Let_def)

text \<open>
  The three failures on the reference environment: a storage that cannot allocate, an Avro
  writer that cannot be made, a storage that refuses the record.
\<close>

theorem add_record_failures_witness:
  "kaa_logging_add_record
     ((ref_env UPLOAD 0)\<lparr>storage_allocate_log_record_buffer := (\<lambda>s size. (KAA_ERR_NOMEM, s))\<rparr>)
     (Some sample_collector) (Some sample_entry) [] =
     (KAA_ERR_NOMEM, Some sample_collector, [Storage_allocate_log_record_buffer 3 KAA_ERR_NOMEM]) \<and>
   kaa_logging_add_record
     ((ref_env UPLOAD 0)\<lparr>avro_writer_memory := (\<lambda>size. False)\<rparr>)
     (Some sample_collector) (Some sample_entry) [] =
     (KAA_ERR_NOMEM, Some sample_collector,
      [Storage_allocate_log_record_buffer 3 KAA_ERR_NONE, Avro_writer_memory False,
       Storage_deallocate_log_record_buffer]) \<and>
   kaa_logging_add_record
     ((ref_env UPLOAD 0)\<lparr>storage_add_log_record := (\<lambda>s size bytes. (KAA_ERR_OTHER (-1), s))\<rparr>)
     (Some sample_collector) (Some sample_entry) [] =
     (KAA_ERR_OTHER (-1), Some sample_collector,
      [Storage_allocate_log_record_buffer 3 KAA_ERR_NONE, Avro_writer_memory True,
       Storage_add_log_record 3 (KAA_ERR_OTHER (-1)), Storage_deallocate_log_record_buffer])"
  using
    add_record_failures
      [of sample_collector sample_entry
          "(ref_env UPLOAD 0)\<lparr>storage_allocate_log_record_buffer := (\<lambda>s size. (KAA_ERR_NOMEM, s))\<rparr>"
          "[]"]
    add_record_failures
      [of sample_collector sample_entry
          "(ref_env UPLOAD 0)\<lparr>avro_writer_memory := (\<lambda>size. False)\<rparr>" "[]"]
    add_record_failures
      [of sample_collector sample_entry
          "(ref_env UPLOAD 0)\<lparr>storage_add_log_record := (\<lambda>s size bytes. (KAA_ERR_OTHER (-1), s))\<rparr>"
          "[]"]
  by (simp add: sample_collector_def sample_entry_def ref_env_def)

subsection \<open>The request size\<close>

text \<open>
  Claim C9. On a collector with a configured storage \<^verbatim>\<open>kaa_logging_request_get_size\<close>
  succeeds and stores the header size plus 4 plus the lesser of (a) the record count times
  4, plus the record count times 3, plus the total size, and (b) the maximum bucket size.
  The sum is the one the code computes in \<^verbatim>\<open>size_t\<close>; where it does not overflow it is the
  same sum of natural numbers. When the storage reports no record and no byte the estimate
  is the header size plus 4.
\<close>

theorem request_get_size_estimate:
  "log_storage self \<noteq> None \<longrightarrow>
   (\<exists>estimate.
      kaa_logging_request_get_size env (Some self) (Some v) tr =
        (KAA_ERR_NONE, Some estimate,
         tr @ [Storage_get_records_count, Storage_get_total_size]) \<and>
      estimate =
        EXTENSION_HEADER_SIZE env + 4 +
        min (storage_get_records_count env (log_storage self) * 4 +
             storage_get_records_count env (log_storage self) * 3 +
             storage_get_total_size env (log_storage self))
            (max_log_bucket_size (log_properties self)) \<and>
      (unat (storage_get_records_count env (log_storage self)) * 4 +
       unat (storage_get_records_count env (log_storage self)) * 3 +
       unat (storage_get_total_size env (log_storage self)) < 2 ^ 64 \<and>
       unat (EXTENSION_HEADER_SIZE env) + 4 +
       min (unat (storage_get_records_count env (log_storage self)) * 4 +
            unat (storage_get_records_count env (log_storage self)) * 3 +
            unat (storage_get_total_size env (log_storage self)))
           (unat (max_log_bucket_size (log_properties self))) < 2 ^ 64 \<longrightarrow>
       unat estimate =
         unat (EXTENSION_HEADER_SIZE env) + 4 +
         min (unat (storage_get_records_count env (log_storage self)) * 4 +
              unat (storage_get_records_count env (log_storage self)) * 3 +
              unat (storage_get_total_size env (log_storage self)))
             (unat (max_log_bucket_size (log_properties self)))) \<and>
      (storage_get_records_count env (log_storage self) = 0 \<and>
       storage_get_total_size env (log_storage self) = 0 \<longrightarrow>
         estimate = EXTENSION_HEADER_SIZE env + 4))"
proof
  assume init: "log_storage self \<noteq> None"
  define c where "c = storage_get_records_count env (log_storage self)"
  define t where "t = storage_get_total_size env (log_storage self)"
  define b where "b = max_log_bucket_size (log_properties self)"
  define h where "h = EXTENSION_HEADER_SIZE env"
  define estimate where "estimate = h + 4 + min (c * 4 + c * 3 + t) b"
  have run: "kaa_logging_request_get_size env (Some self) (Some v) tr =
      (KAA_ERR_NONE, Some estimate, tr @ [Storage_get_records_count, Storage_get_total_size])"
    using init
    by (simp add: kaa_logging_request_get_size_def KAA_MAX_PADDING_LENGTH_def Let_def
        if_less_min estimate_def c_def t_def b_def h_def)
  have nat_sum: "unat c * 4 + unat c * 3 + unat t < 2 ^ 64 \<and>
      unat h + 4 + min (unat c * 4 + unat c * 3 + unat t) (unat b) < 2 ^ 64 \<longrightarrow>
      unat estimate = unat h + 4 + min (unat c * 4 + unat c * 3 + unat t) (unat b)"
    unfolding estimate_def using unat_estimate [of c t h b] by blast
  have empty: "c = 0 \<and> t = 0 \<longrightarrow> estimate = h + 4"
    by (simp add: estimate_def)
  from run nat_sum empty
  show "\<exists>estimate.
      kaa_logging_request_get_size env (Some self) (Some v) tr =
        (KAA_ERR_NONE, Some estimate,
         tr @ [Storage_get_records_count, Storage_get_total_size]) \<and>
      estimate =
        EXTENSION_HEADER_SIZE env + 4 +
        min (storage_get_records_count env (log_storage self) * 4 +
             storage_get_records_count env (log_storage self) * 3 +
             storage_get_total_size env (log_storage self))
            (max_log_bucket_size (log_properties self)) \<and>
      (unat (storage_get_records_count env (log_storage self)) * 4 +
       unat (storage_get_records_count env (log_storage self)) * 3 +
       unat (storage_get_total_size env (log_storage self)) < 2 ^ 64 \<and>
       unat (EXTENSION_HEADER_SIZE env) + 4 +
       min (unat (storage_get_records_count env (log_storage self)) * 4 +
            unat (storage_get_records_count env (log_storage self)) * 3 +
            unat (storage_get_total_size env (log_storage self)))
           (unat (max_log_bucket_size (log_properties self))) < 2 ^ 64 \<longrightarrow>
       unat estimate =
         unat (EXTENSION_HEADER_SIZE env) + 4 +
         min (unat (storage_get_records_count env (log_storage self)) * 4 +
              unat (storage_get_records_count env (log_storage self)) * 3 +
              unat (storage_get_total_size env (log_storage self)))
             (unat (max_log_bucket_size (log_properties self)))) \<and>
      (storage_get_records_count env (log_storage self) = 0 \<and>
       storage_get_total_size env (log_storage self) = 0 \<longrightarrow>
         estimate = EXTENSION_HEADER_SIZE env + 4)"
    unfolding estimate_def c_def t_def b_def h_def by blast
qed

text \<open>
  On the reference environment: two pending records of 12 and 8 bytes under a maximum
  bucket size of 1000 give \<open>8 + 4 + (2 * 4 + 2 * 3 + 20) = 46\<close>; under a maximum bucket
  size of 16 they give \<open>8 + 4 + 16 = 28\<close>; an empty storage gives \<open>8 + 4 = 12\<close>.
\<close>

theorem request_get_size_estimate_witness:
  "kaa_logging_request_get_size (ref_env NOOP 0)
     (Some (sample_collector\<lparr>log_properties :=
        \<lparr>max_log_storage_volume = 1000, max_log_bucket_size = 1000\<rparr>\<rparr>)) (Some 0) [] =
     (KAA_ERR_NONE, Some 46, [Storage_get_records_count, Storage_get_total_size]) \<and>
   kaa_logging_request_get_size (ref_env NOOP 0) (Some sample_collector) (Some 0) [] =
     (KAA_ERR_NONE, Some 28, [Storage_get_records_count, Storage_get_total_size]) \<and>
   kaa_logging_request_get_size (ref_env NOOP 0)
     (Some (sample_collector\<lparr>log_storage := Some []\<rparr>)) (Some 0) [] =
     (KAA_ERR_NONE, Some 12, [Storage_get_records_count, Storage_get_total_size])"
  using
    request_get_size_estimate
      [of "sample_collector\<lparr>log_properties :=
             \<lparr>max_log_storage_volume = 1000, max_log_bucket_size = 1000\<rparr>\<rparr>"
          "ref_env NOOP 0" 0 "[]"]
    request_get_size_estimate [of sample_collector "ref_env NOOP 0" 0 "[]"]
    request_get_size_estimate
      [of "sample_collector\<lparr>log_storage := Some []\<rparr>" "ref_env NOOP 0" 0 "[]"]
  by (simp add: sample_collector_def ref_env_def ref_total_size_def)

subsection \<open>Server acknowledgments\<close>

text \<open>
  Claim C4. \<^verbatim>\<open>kaa_logging_handle_server_sync\<close> on an extension shorter than 4 bytes returns
  \<^verbatim>\<open>KAA_ERR_NONE\<close> and changes nothing: no external call, the reader where it was. On a
  longer one the bucket id is byte 0 times 256 plus byte 1; when byte 2 is zero the one
  storage call is \<^verbatim>\<open>ext_log_storage_remove_by_bucket_id\<close> with that id, otherwise it is
  \<^verbatim>\<open>ext_log_storage_unmark_by_bucket_id\<close> with that id; the next call asks the strategy,
  on the storage the removal or unmarking returned, and the rest is what
  \<^verbatim>\<open>update_storage\<close> does; the reader has advanced by 4 and the result is
  \<^verbatim>\<open>KAA_ERR_NONE\<close>.
\<close>

theorem handle_server_sync_acknowledgment:
  "(extension_length < 4 \<longrightarrow>
      kaa_logging_handle_server_sync env (Some self) (Some reader) extension_options
        extension_length m tr = (KAA_ERR_NONE, Some self, Some reader, tr)) \<and>
   (4 \<le> extension_length \<longrightarrow>
      (\<exists>id s' self' rest.
         unat id = 256 * unat (m (current reader)) + unat (m (current reader + 1)) \<and>
         s' = (if m (current reader + 2) = 0
               then storage_remove_by_bucket_id env (log_storage self) id
               else storage_unmark_by_bucket_id env (log_storage self) id) \<and>
         kaa_logging_handle_server_sync env (Some self) (Some reader) extension_options
           extension_length m tr =
           (KAA_ERR_NONE, Some self', Some (reader\<lparr>current := current reader + 4\<rparr>),
            tr @ [if m (current reader + 2) = 0 then Storage_remove_by_bucket_id id
                  else Storage_unmark_by_bucket_id id] @
                 [Strategy_decide (strategy_decide env s')] @ rest) \<and>
         update_storage env (self\<lparr>log_storage := s'\<rparr>)
           (tr @ [if m (current reader + 2) = 0 then Storage_remove_by_bucket_id id
                  else Storage_unmark_by_bucket_id id]) =
           (self', tr @ [if m (current reader + 2) = 0 then Storage_remove_by_bucket_id id
                         else Storage_unmark_by_bucket_id id] @
                        [Strategy_decide (strategy_decide env s')] @ rest)))"
proof (intro conjI impI)
  assume "extension_length < 4"
  then show "kaa_logging_handle_server_sync env (Some self) (Some reader) extension_options
        extension_length m tr = (KAA_ERR_NONE, Some self, Some reader, tr)"
    by (simp add: kaa_logging_handle_server_sync_def not_le [symmetric])
next
  assume long: "4 \<le> extension_length"
  define id where "id = load_ntohs m (current reader)"
  define s' where "s' = (if m (current reader + 2) = 0
               then storage_remove_by_bucket_id env (log_storage self) id
               else storage_unmark_by_bucket_id env (log_storage self) id)"
  define call where "call = (if m (current reader + 2) = 0 then Storage_remove_by_bucket_id id
                  else Storage_unmark_by_bucket_id id)"
  obtain self' rest where upd:
    "update_storage env (self\<lparr>log_storage := s'\<rparr>) (tr @ [call]) =
       (self', (tr @ [call]) @ [Strategy_decide (strategy_decide env s')] @ rest)"
    using update_storage_decides [of env "self\<lparr>log_storage := s'\<rparr>" "tr @ [call]"] by auto
  have run: "kaa_logging_handle_server_sync env (Some self) (Some reader) extension_options
      extension_length m tr =
      (KAA_ERR_NONE, Some self', Some (reader\<lparr>current := current reader + 4\<rparr>),
       tr @ [call] @ [Strategy_decide (strategy_decide env s')] @ rest)"
  proof (cases "m (current reader + 2) = 0")
    case True
    with long upd show ?thesis
      by (simp add: kaa_logging_handle_server_sync_def Let_def LOGGING_RESULT_SUCCESS_def
          id_def s'_def call_def)
  next
    case False
    with long upd show ?thesis
      by (simp add: kaa_logging_handle_server_sync_def Let_def LOGGING_RESULT_SUCCESS_def
          id_def s'_def call_def)
  qed
  have "unat id = 256 * unat (m (current reader)) + unat (m (current reader + 1))"
    unfolding id_def by (rule load_ntohs_big_endian)
  with run upd show "\<exists>id s' self' rest.
         unat id = 256 * unat (m (current reader)) + unat (m (current reader + 1)) \<and>
         s' = (if m (current reader + 2) = 0
               then storage_remove_by_bucket_id env (log_storage self) id
               else storage_unmark_by_bucket_id env (log_storage self) id) \<and>
         kaa_logging_handle_server_sync env (Some self) (Some reader) extension_options
           extension_length m tr =
           (KAA_ERR_NONE, Some self', Some (reader\<lparr>current := current reader + 4\<rparr>),
            tr @ [if m (current reader + 2) = 0 then Storage_remove_by_bucket_id id
                  else Storage_unmark_by_bucket_id id] @
                 [Strategy_decide (strategy_decide env s')] @ rest) \<and>
         update_storage env (self\<lparr>log_storage := s'\<rparr>)
           (tr @ [if m (current reader + 2) = 0 then Storage_remove_by_bucket_id id
                  else Storage_unmark_by_bucket_id id]) =
           (self', tr @ [if m (current reader + 2) = 0 then Storage_remove_by_bucket_id id
                         else Storage_unmark_by_bucket_id id] @
                        [Strategy_decide (strategy_decide env s')] @ rest)"
    unfolding s'_def call_def
    by (intro exI [of _ id] exI [of _ s'] exI [of _ self'] exI [of _ rest]) (simp add: s'_def)
qed

text \<open>
  On the reference environment: three bytes are ignored; a zero result byte removes the
  record of bucket 258; a nonzero one returns it to the pending records.
\<close>

theorem handle_server_sync_acknowledgment_witness:
  "kaa_logging_handle_server_sync (ref_env NOOP 0) (Some tagged_collector)
     (Some \<lparr>current = 0, end_p = 4\<rparr>) 0 3 (ack_memory 0) [] =
     (KAA_ERR_NONE, Some tagged_collector, Some \<lparr>current = 0, end_p = 4\<rparr>, []) \<and>
   kaa_logging_handle_server_sync (ref_env NOOP 0) (Some tagged_collector)
     (Some \<lparr>current = 0, end_p = 4\<rparr>) 0 4 (ack_memory 0) [] =
     (KAA_ERR_NONE, Some (tagged_collector\<lparr>log_storage := Some [([4, 5], None)]\<rparr>),
      Some \<lparr>current = 4, end_p = 4\<rparr>,
      [Storage_remove_by_bucket_id 258, Strategy_decide NOOP]) \<and>
   kaa_logging_handle_server_sync (ref_env NOOP 0) (Some tagged_collector)
     (Some \<lparr>current = 0, end_p = 4\<rparr>) 0 4 (ack_memory 1) [] =
     (KAA_ERR_NONE,
      Some (tagged_collector\<lparr>log_storage := Some [([1, 2, 3], None), ([4, 5], None)]\<rparr>),
      Some \<lparr>current = 4, end_p = 4\<rparr>,
      [Storage_unmark_by_bucket_id 258, Strategy_decide NOOP])"
  using
    handle_server_sync_acknowledgment
      [of 3 "ref_env NOOP 0" tagged_collector "\<lparr>current = 0, end_p = 4\<rparr>" 0 "ack_memory 0" "[]"]
    handle_server_sync_acknowledgment
      [of 4 "ref_env NOOP 0" tagged_collector "\<lparr>current = 0, end_p = 4\<rparr>" 0 "ack_memory 0" "[]"]
    handle_server_sync_acknowledgment
      [of 4 "ref_env NOOP 0" tagged_collector "\<lparr>current = 0, end_p = 4\<rparr>" 0 "ack_memory 1" "[]"]
  by (simp add: kaa_logging_handle_server_sync_def update_storage_def tagged_collector_def
      ref_env_def ack_memory_def load_ntohs_def LOGGING_RESULT_SUCCESS_def Let_def)

subsection \<open>Operations before the storage is configured\<close>

text \<open>
  On a collector whose storage is not configured, \<^verbatim>\<open>kaa_logging_add_record\<close>,
  \<^verbatim>\<open>kaa_logging_request_get_size\<close> and \<^verbatim>\<open>kaa_logging_request_serialize\<close> return
  \<^verbatim>\<open>KAA_ERR_NOT_INITIALIZED\<close> and make no external call.
\<close>

lemma not_initialized_checked:
  assumes "log_storage self = None"
  shows "kaa_logging_add_record env (Some self) (Some entry) tr =
           (KAA_ERR_NOT_INITIALIZED, Some self, tr)"
    and "kaa_logging_request_get_size env (Some self) (Some v) tr =
           (KAA_ERR_NOT_INITIALIZED, Some v, tr)"
    and "kaa_logging_request_serialize env (Some self) (Some writer) m tr =
           Some (KAA_ERR_NOT_INITIALIZED, Some self, Some writer, m, tr)"
  using assms
  by (simp_all add: kaa_logging_add_record_def kaa_logging_request_get_size_def
      kaa_logging_request_serialize_def)

text \<open>
  Claim C6. \<^verbatim>\<open>kaa_logging_handle_server_sync\<close> has no such check. On the collector that
  \<^verbatim>\<open>kaa_log_collector_create\<close> returns, whose storage pointer is \<^verbatim>\<open>NULL\<close>, an acknowledgment
  of four zero bytes returns \<^verbatim>\<open>KAA_ERR_NONE\<close>, not \<^verbatim>\<open>KAA_ERR_NOT_INITIALIZED\<close>, after
  calling \<^verbatim>\<open>ext_log_storage_remove_by_bucket_id\<close> with the \<^verbatim>\<open>NULL\<close> storage and consulting
  the strategy.
\<close>

theorem handle_server_sync_not_initialized:
  "kaa_log_collector_create True True = (KAA_ERR_NONE, Some fresh_collector) \<and>
   log_storage fresh_collector = None \<and>
   kaa_logging_handle_server_sync (ref_env NOOP 0) (Some fresh_collector)
     (Some \<lparr>current = 0, end_p = 4\<rparr>) 0 4 (\<lambda>a. 0) [] =
     (KAA_ERR_NONE, Some fresh_collector, Some \<lparr>current = 4, end_p = 4\<rparr>,
      [Storage_remove_by_bucket_id 0, Strategy_decide NOOP]) \<and>
   is_storage_call (Storage_remove_by_bucket_id 0)"
  by (simp add: kaa_log_collector_create_def kaa_logging_handle_server_sync_def
      update_storage_def fresh_collector_def ref_env_def load_ntohs_def
      LOGGING_RESULT_SUCCESS_def Let_def)

subsection \<open>The extraction loop\<close>

text \<open>
  What a run of the loop that ends has done: it appended extractions for the bucket id, at
  least one; \<^verbatim>\<open>records_count\<close> grew by the number of records packed (modulo \<open>2^16\<close>);
  and on the normal exit \<^verbatim>\<open>records_count\<close> is not zero.
\<close>

lemma serialize_records_calls:
  assumes "serialize_records env bucket_id st = Some y"
  shows "(\<exists>new. ss_calls (snd y) = ss_calls st @ new \<and> new \<noteq> [] \<and>
          list_all (is_extraction bucket_id) new \<and>
          ss_records_count (snd y) = ss_records_count st + of_nat (packed_records new)) \<and>
   (fst y = KAA_ERR_NONE \<longrightarrow> ss_records_count (snd y) \<noteq> 0)"
proof (induction rule: serialize_records.raw_induct [OF _ assms])
  case (1 rec env bucket_id st y)
  obtain e bytes s' where w:
    "storage_write_next_record env (ss_storage st) (ss_remaining_size st - 4) bucket_id =
       (e, bytes, s')"
    by (metis prod_cases3)
  define ev where
    "ev = Storage_write_next_record (ss_remaining_size st - 4) bucket_id e (of_nat (length bytes))"
  show ?case
  proof (cases "e = KAA_ERR_NONE")
    case True
    with 1(2) w obtain st2 where rec: "rec env bucket_id st2 = Some y"
      and calls2: "ss_calls st2 = ss_calls st @ [ev]"
      and count2: "ss_records_count st2 = ss_records_count st + 1"
      by (auto simp add: Let_def ev_def split: prod.splits)
    from 1(1) [OF rec] obtain new where new:
      "ss_calls (snd y) = ss_calls st2 @ new" "list_all (is_extraction bucket_id) new"
      "ss_records_count (snd y) = ss_records_count st2 + of_nat (packed_records new)"
      and nz: "fst y = KAA_ERR_NONE \<longrightarrow> ss_records_count (snd y) \<noteq> 0"
      by blast
    have "ss_calls (snd y) = ss_calls st @ (ev # new)"
      using new(1) calls2 by simp
    moreover have "list_all (is_extraction bucket_id) (ev # new)"
      using new(2) by (simp add: ev_def)
    moreover have "ss_records_count (snd y) =
        ss_records_count st + of_nat (packed_records (ev # new))"
      using new(3) count2 True by (simp add: ev_def packed_records_def)
    ultimately show ?thesis using nz by blast
  next
    case False
    with 1(2) w have y: "ss_calls (snd y) = ss_calls st @ [ev]"
        "ss_records_count (snd y) = ss_records_count st"
        "fst y = KAA_ERR_NONE \<longrightarrow> ss_records_count st \<noteq> 0"
      by (auto simp add: Let_def ev_def split: if_splits)
    have "list_all (is_extraction bucket_id) [ev]" by (simp add: ev_def)
    moreover have "packed_records [ev] = 0" using False by (simp add: ev_def packed_records_def)
    ultimately show ?thesis using y by (intro conjI exI [of _ "[ev]"]) simp_all
  qed
qed

lemma packed_records_append [simp]:
  "packed_records (xs @ ys) = packed_records xs + packed_records ys"
  by (simp add: packed_records_def)

lemma serialize_prologue_start:
  assumes "serialize_prologue env self writer m tr = Inr (self1, rcp, st0)"
  shows "\<exists>pre. ss_calls st0 = tr @ pre \<and> packed_records pre = 0 \<and>
               \<not> list_ex (is_extraction (log_bucket_id self1)) pre"
    and "ss_records_count st0 = 0"
    and "ss_storage st0 = log_storage self"
    and "log_storage self1 = log_storage self"
    and "log_properties self1 = log_properties self"
  using assms
  by (auto simp add: serialize_prologue_def Let_def packed_records_def
      split: prod.splits if_splits)

lemma serialize_prologue_early:
  "serialize_prologue env self writer m tr = Inl (e, x) \<Longrightarrow>
   e = KAA_ERR_WRITE_FAILED \<or> e = KAA_ERR_BAD_STATE"
  by (auto simp add: serialize_prologue_def Let_def split: prod.splits if_splits)

subsection \<open>No empty bucket\<close>

text \<open>
  Claim C1. On a collector with a configured storage, when the part before the loop
  succeeds and the first call of \<^verbatim>\<open>ext_log_storage_write_next_record\<close> returns
  \<^verbatim>\<open>KAA_ERR_NOT_FOUND\<close> or \<^verbatim>\<open>KAA_ERR_INSUFFICIENT_BUFFER\<close>, the call of
  \<^verbatim>\<open>kaa_logging_request_serialize\<close> returns, with that error, the caller's writer where it
  was and no record packed. And whenever \<^verbatim>\<open>kaa_logging_request_serialize\<close> returns
  \<^verbatim>\<open>KAA_ERR_NONE\<close>, whatever its arguments, at least one extraction of the call packed a
  record.
\<close>

theorem serialize_never_empty:
  "(log_storage self \<noteq> None \<longrightarrow>
    (\<forall>self1 rcp st0 e bytes s'.
       serialize_prologue env self writer m tr = Inr (self1, rcp, st0) \<and>
       storage_write_next_record env (ss_storage st0) (ss_remaining_size st0 - 4)
         (log_bucket_id self1) = (e, bytes, s') \<and>
       (e = KAA_ERR_NOT_FOUND \<or> e = KAA_ERR_INSUFFICIENT_BUFFER) \<longrightarrow>
       (\<exists>self' m' tr'.
          kaa_logging_request_serialize env (Some self) (Some writer) m tr =
            Some (e, Some self', Some writer, m', tr') \<and>
          packed_records (drop (length tr) tr') = 0))) \<and>
   (\<forall>self_p' writer_p' m' tr'.
      kaa_logging_request_serialize env self_p writer_p m tr =
        Some (KAA_ERR_NONE, self_p', writer_p', m', tr') \<longrightarrow>
      1 \<le> packed_records (drop (length tr) tr'))"
proof (intro conjI impI allI)
  fix self1 rcp st0 e bytes s'
  assume init: "log_storage self \<noteq> None"
  assume h: "serialize_prologue env self writer m tr = Inr (self1, rcp, st0) \<and>
       storage_write_next_record env (ss_storage st0) (ss_remaining_size st0 - 4)
         (log_bucket_id self1) = (e, bytes, s') \<and>
       (e = KAA_ERR_NOT_FOUND \<or> e = KAA_ERR_INSUFFICIENT_BUFFER)"
  then have pro: "serialize_prologue env self writer m tr = Inr (self1, rcp, st0)"
    and ext: "storage_write_next_record env (ss_storage st0) (ss_remaining_size st0 - 4)
         (log_bucket_id self1) = (e, bytes, s')"
    and e: "e = KAA_ERR_NOT_FOUND \<or> e = KAA_ERR_INSUFFICIENT_BUFFER"
    by simp_all
  obtain pre where pre: "ss_calls st0 = tr @ pre" "packed_records pre = 0"
    using serialize_prologue_start(1) [OF pro] by blast
  have zero: "ss_records_count st0 = 0"
    by (rule serialize_prologue_start(2) [OF pro])
  define st1 where "st1 = st0\<lparr>ss_storage := s',
      ss_mem := write_bytes (ss_mem st0) (current (ss_writer st0) + 4) bytes,
      ss_calls := ss_calls st0 @
        [Storage_write_next_record (ss_remaining_size st0 - 4) (log_bucket_id self1) e
           (of_nat (length bytes))]\<rparr>"
  have loop: "serialize_records env (log_bucket_id self1) st0 = Some (e, st1)"
    using ext e zero by (subst serialize_records.simps) (auto simp add: Let_def st1_def)
  have "kaa_logging_request_serialize env (Some self) (Some writer) m tr =
      Some (e, Some (self1\<lparr>log_storage := ss_storage st1\<rparr>), Some writer, ss_mem st1,
            ss_calls st1)"
    using init pro loop e by (auto simp add: kaa_logging_request_serialize_def Let_def)
  moreover have "packed_records (drop (length tr) (ss_calls st1)) = 0"
    using pre e by (auto simp add: st1_def packed_records_def)
  ultimately show "\<exists>self' m' tr'.
          kaa_logging_request_serialize env (Some self) (Some writer) m tr =
            Some (e, Some self', Some writer, m', tr') \<and>
          packed_records (drop (length tr) tr') = 0"
    by blast
next
  fix self_p' writer_p' m' tr'
  assume ok: "kaa_logging_request_serialize env self_p writer_p m tr =
        Some (KAA_ERR_NONE, self_p', writer_p', m', tr')"
  then obtain self writer where args: "self_p = Some self" "writer_p = Some writer"
    by (auto simp add: kaa_logging_request_serialize_def split: option.splits)
  from ok args obtain self1 rcp st0 st where
    pro: "serialize_prologue env self writer m tr = Inr (self1, rcp, st0)"
    and loop: "serialize_records env (log_bucket_id self1) st0 = Some (KAA_ERR_NONE, st)"
    and tr': "tr' = ss_calls st"
    by (auto simp add: kaa_logging_request_serialize_def Let_def
        split: option.splits if_splits sum.splits prod.splits
        dest: serialize_prologue_early)
  obtain pre where pre: "ss_calls st0 = tr @ pre"
    using serialize_prologue_start(1) [OF pro] by blast
  have zero: "ss_records_count st0 = 0"
    by (rule serialize_prologue_start(2) [OF pro])
  from serialize_records_calls [OF loop] obtain new where
    new: "ss_calls st = ss_calls st0 @ new"
      "ss_records_count st = ss_records_count st0 + of_nat (packed_records new)"
    and nz: "ss_records_count st \<noteq> 0"
    by auto
  from new(2) nz zero have "packed_records new \<noteq> 0"
    by (cases "packed_records new") auto
  then show "1 \<le> packed_records (drop (length tr) tr')"
    using pre new(1) tr' by simp
qed

text \<open>
  On the reference environment: an empty storage gives \<^verbatim>\<open>KAA_ERR_NOT_FOUND\<close>; a bucket
  size of 8 leaves 4 bytes for the first record of 12 and gives
  \<^verbatim>\<open>KAA_ERR_INSUFFICIENT_BUFFER\<close>; the sample collector packs its two records.
\<close>

theorem serialize_never_empty_witness:
  "map_option (\<lambda>(e, c, w, m, tr). (e, w, packed_records tr))
     (kaa_logging_request_serialize (ref_env NOOP 0)
        (Some (sample_collector\<lparr>log_storage := Some []\<rparr>))
        (Some \<lparr>current = 0, end_p = 1024\<rparr>) (\<lambda>a. 0) []) =
     Some (KAA_ERR_NOT_FOUND, Some \<lparr>current = 0, end_p = 1024\<rparr>, 0) \<and>
   map_option (\<lambda>(e, c, w, m, tr). (e, w, packed_records tr))
     (kaa_logging_request_serialize (ref_env NOOP 0)
        (Some (sample_collector\<lparr>log_properties :=
           \<lparr>max_log_storage_volume = 1000, max_log_bucket_size = 8\<rparr>\<rparr>))
        (Some \<lparr>current = 0, end_p = 1024\<rparr>) (\<lambda>a. 0) []) =
     Some (KAA_ERR_INSUFFICIENT_BUFFER, Some \<lparr>current = 0, end_p = 1024\<rparr>, 0) \<and>
   map_option (\<lambda>(e, c, w, m, tr). (e, w, packed_records tr))
     (kaa_logging_request_serialize (ref_env NOOP 0) (Some sample_collector)
        (Some \<lparr>current = 0, end_p = 1024\<rparr>) (\<lambda>a. 0) []) =
     Some (KAA_ERR_NONE, Some \<lparr>current = 40, end_p = 1024\<rparr>, 2)"
  using
    serialize_never_empty
      [where self = "sample_collector\<lparr>log_storage := Some []\<rparr>" and env = "ref_env NOOP 0"
         and writer = "\<lparr>current = 0, end_p = 1024\<rparr>" and m = "\<lambda>a. 0" and tr = "[]"
         and self_p = "Some sample_collector"
         and writer_p = "Some \<lparr>current = 0, end_p = 1024\<rparr>"]
    serialize_never_empty
      [where self = "sample_collector\<lparr>log_properties :=
           \<lparr>max_log_storage_volume = 1000, max_log_bucket_size = 8\<rparr>\<rparr>"
         and env = "ref_env NOOP 0"
         and writer = "\<lparr>current = 0, end_p = 1024\<rparr>" and m = "\<lambda>a. 0" and tr = "[]"
         and self_p = "Some sample_collector"
         and writer_p = "Some \<lparr>current = 0, end_p = 1024\<rparr>"]
  by (simp add: kaa_logging_request_serialize_def serialize_prologue_def
      serialize_records.simps sample_collector_def ref_env_def ref_write_extension_header_def
      ref_write_alignment_def ref_aligned_size_get_def ptr_diff_def packed_records_def
      KAA_LOGGING_RECEIVE_UPDATES_FLAG_def Let_def)

subsection \<open>The bucket id\<close>

lemma update_storage_bucket_id:
  "update_storage env self tr = (self', tr') \<Longrightarrow> log_bucket_id self' = log_bucket_id self"
  using update_storage_decides [of env self tr] by auto

lemma serialize_prologue_bucket_id:
  "serialize_prologue env self writer m tr = Inr (self1, rcp, st0) \<Longrightarrow>
   log_bucket_id self1 =
     (if log_bucket_id self = 0 then snd (status_get_log_bucket_id env 0)
      else log_bucket_id self) + 1"
  by (auto simp add: serialize_prologue_def Let_def split: prod.splits if_splits)

lemma serialize_prologue_succeeds:
  assumes "fst (write_extension_header env m writer (LOGGING_EXTENSION_TYPE env)
                  KAA_LOGGING_RECEIVE_UPDATES_FLAG 0) = KAA_ERR_NONE"
    and "log_bucket_id self \<noteq> 0 \<or> fst (status_get_log_bucket_id env 0) = KAA_ERR_NONE"
  shows "\<exists>self1 rcp st0. serialize_prologue env self writer m tr = Inr (self1, rcp, st0)"
  using assms
  by (auto simp add: serialize_prologue_def Let_def split: prod.splits if_splits)

text \<open>
  Claim C10. When the extension header is written and the id is seeded (the counter is not
  zero, or the status returns the persisted id), every result of
  \<^verbatim>\<open>kaa_logging_request_serialize\<close>, success or error, leaves the counter at the seed plus
  one, where the seed is the counter, or the persisted id when the counter was zero. The
  calls of the invocation are some that are no extraction, then at least one extraction, and
  every extraction carries the new id: the increment comes before the loop. The other
  operations that receive the collector, \<^verbatim>\<open>kaa_logging_add_record\<close>,
  \<^verbatim>\<open>kaa_logging_handle_server_sync\<close> and \<^verbatim>\<open>kaa_logging_init\<close>, return it with the counter
  it had (\<^verbatim>\<open>kaa_logging_request_get_size\<close> does not write to the collector at all).
\<close>

theorem bucket_id_consumed:
  "(log_storage self \<noteq> None \<and>
    fst (write_extension_header env m writer (LOGGING_EXTENSION_TYPE env)
           KAA_LOGGING_RECEIVE_UPDATES_FLAG 0) = KAA_ERR_NONE \<and>
    (log_bucket_id self \<noteq> 0 \<or> fst (status_get_log_bucket_id env 0) = KAA_ERR_NONE) \<longrightarrow>
    (\<forall>e self_p' writer_p' m' tr'.
       kaa_logging_request_serialize env (Some self) (Some writer) m tr =
         Some (e, self_p', writer_p', m', tr') \<longrightarrow>
       (\<exists>self' pre new.
          self_p' = Some self' \<and>
          log_bucket_id self' =
            (if log_bucket_id self = 0 then snd (status_get_log_bucket_id env 0)
             else log_bucket_id self) + 1 \<and>
          tr' = tr @ pre @ new \<and> packed_records pre = 0 \<and>
          \<not> list_ex (is_extraction (log_bucket_id self')) pre \<and>
          new \<noteq> [] \<and> list_all (is_extraction (log_bucket_id self')) new))) \<and>
   (\<forall>e self_p' tr'.
      kaa_logging_add_record env (Some self) entry_p tr = (e, self_p', tr') \<longrightarrow>
      map_option log_bucket_id self_p' = Some (log_bucket_id self)) \<and>
   (\<forall>e self_p' reader_p' tr'.
      kaa_logging_handle_server_sync env (Some self) reader_p extension_options
        extension_length m tr = (e, self_p', reader_p', tr') \<longrightarrow>
      map_option log_bucket_id self_p' = Some (log_bucket_id self)) \<and>
   (\<forall>e self_p' tr'.
      kaa_logging_init (Some self) storage upload_strategy properties_p tr = (e, self_p', tr') \<longrightarrow>
      map_option log_bucket_id self_p' = Some (log_bucket_id self))"
proof (intro conjI impI allI)
  fix e self_p' writer_p' m' tr'
  assume h: "log_storage self \<noteq> None \<and>
    fst (write_extension_header env m writer (LOGGING_EXTENSION_TYPE env)
           KAA_LOGGING_RECEIVE_UPDATES_FLAG 0) = KAA_ERR_NONE \<and>
    (log_bucket_id self \<noteq> 0 \<or> fst (status_get_log_bucket_id env 0) = KAA_ERR_NONE)"
  assume run: "kaa_logging_request_serialize env (Some self) (Some writer) m tr =
         Some (e, self_p', writer_p', m', tr')"
  from h obtain self1 rcp st0 where
    pro: "serialize_prologue env self writer m tr = Inr (self1, rcp, st0)"
    using serialize_prologue_succeeds [of env m writer self tr] by blast
  from h run pro obtain e2 st where
    loop: "serialize_records env (log_bucket_id self1) st0 = Some (e2, st)"
    and res: "self_p' = Some (self1\<lparr>log_storage := ss_storage st\<rparr>)" "tr' = ss_calls st"
    by (auto simp add: kaa_logging_request_serialize_def Let_def
        split: option.splits if_splits)
  obtain pre where pre: "ss_calls st0 = tr @ pre" "packed_records pre = 0"
    "\<not> list_ex (is_extraction (log_bucket_id self1)) pre"
    using serialize_prologue_start(1) [OF pro] by blast
  from serialize_records_calls [OF loop] obtain new where
    new: "ss_calls st = ss_calls st0 @ new" "new \<noteq> []"
      "list_all (is_extraction (log_bucket_id self1)) new"
    by auto
  show "\<exists>self' pre new.
          self_p' = Some self' \<and>
          log_bucket_id self' =
            (if log_bucket_id self = 0 then snd (status_get_log_bucket_id env 0)
             else log_bucket_id self) + 1 \<and>
          tr' = tr @ pre @ new \<and> packed_records pre = 0 \<and>
          \<not> list_ex (is_extraction (log_bucket_id self')) pre \<and>
          new \<noteq> [] \<and> list_all (is_extraction (log_bucket_id self')) new"
    using res pre new serialize_prologue_bucket_id [OF pro]
    by (intro exI [of _ "self1\<lparr>log_storage := ss_storage st\<rparr>"] exI [of _ pre]
        exI [of _ new]) simp
next
  fix e self_p' tr'
  assume "kaa_logging_add_record env (Some self) entry_p tr = (e, self_p', tr')"
  then show "map_option log_bucket_id self_p' = Some (log_bucket_id self)"
    by (auto simp add: kaa_logging_add_record_def Let_def
        split: option.splits if_splits prod.splits dest: update_storage_bucket_id)
next
  fix e self_p' reader_p' tr'
  assume "kaa_logging_handle_server_sync env (Some self) reader_p extension_options
        extension_length m tr = (e, self_p', reader_p', tr')"
  then show "map_option log_bucket_id self_p' = Some (log_bucket_id self)"
    by (auto simp add: kaa_logging_handle_server_sync_def Let_def
        split: option.splits if_splits prod.splits dest: update_storage_bucket_id)
next
  fix e self_p' tr'
  assume "kaa_logging_init (Some self) storage upload_strategy properties_p tr = (e, self_p', tr')"
  then show "map_option log_bucket_id self_p' = Some (log_bucket_id self)"
    by (auto simp add: kaa_logging_init_def split: option.splits if_splits)
qed

text \<open>
  On the reference environment with the persisted id 5: a call on an empty storage fails
  with \<^verbatim>\<open>KAA_ERR_NOT_FOUND\<close> and leaves the counter at 6; a successful call leaves it at 6;
  adding a record and an acknowledgment leave the counter 258 of a collector as it is.
\<close>

theorem bucket_id_consumed_witness:
  "error_and_bucket_id
     (kaa_logging_request_serialize (ref_env NOOP 5) (Some empty_collector)
        (Some sample_writer) (\<lambda>a. 0) []) = Some (KAA_ERR_NOT_FOUND, Some 6) \<and>
   error_and_bucket_id
     (kaa_logging_request_serialize (ref_env NOOP 5) (Some three_collector)
        (Some sample_writer) (\<lambda>a. 0) []) = Some (KAA_ERR_NONE, Some 6) \<and>
   map_option log_bucket_id
     (fst (snd (kaa_logging_add_record (ref_env NOOP 5) (Some tagged_collector)
                  (Some sample_entry) []))) = Some 258 \<and>
   map_option log_bucket_id
     (fst (snd (kaa_logging_handle_server_sync (ref_env NOOP 5) (Some tagged_collector)
                  (Some \<lparr>current = 0, end_p = 4\<rparr>) 0 4 (ack_memory 0) []))) = Some 258"
  using
    bucket_id_consumed
      [where self = empty_collector and env = "ref_env NOOP 5" and writer = sample_writer
         and m = "\<lambda>a. 0" and tr = "[]" and entry_p = "Some sample_entry"
         and reader_p = "Some \<lparr>current = 0, end_p = 4\<rparr>" and extension_options = 0
         and extension_length = 4 and storage = None and upload_strategy = True
         and properties_p = None]
    bucket_id_consumed
      [where self = three_collector and env = "ref_env NOOP 5" and writer = sample_writer
         and m = "\<lambda>a. 0" and tr = "[]" and entry_p = "Some sample_entry"
         and reader_p = "Some \<lparr>current = 0, end_p = 4\<rparr>" and extension_options = 0
         and extension_length = 4 and storage = None and upload_strategy = True
         and properties_p = None]
    bucket_id_consumed
      [where self = tagged_collector and env = "ref_env NOOP 5" and writer = sample_writer
         and m = "ack_memory 0" and tr = "[]" and entry_p = "Some sample_entry"
         and reader_p = "Some \<lparr>current = 0, end_p = 4\<rparr>" and extension_options = 0
         and extension_length = 4 and storage = None and upload_strategy = True
         and properties_p = None]
  by (simp add: error_and_bucket_id_def kaa_logging_request_serialize_def
      serialize_prologue_def serialize_records.simps kaa_logging_add_record_def
      kaa_logging_handle_server_sync_def update_storage_def empty_collector_def
      three_collector_def tagged_collector_def sample_writer_def sample_entry_def
      ack_memory_def ref_env_def ref_write_extension_header_def ref_write_alignment_def
      ref_aligned_size_get_def ptr_diff_def load_ntohs_def LOGGING_RESULT_SUCCESS_def
      KAA_LOGGING_RECEIVE_UPDATES_FLAG_def Let_def)

text \<open>
  Claim C3. The first call uses the persisted id plus one, and a call that finds the
  counter not zero uses the counter plus one. A call that finds the counter zero reads the
  persisted id again, also when the counter is zero because it has wrapped around. With the
  persisted id 65534, three successive successful calls on a new collector use the bucket
  ids 65535, 0 and 65535: the third is not the second plus one.
\<close>

theorem bucket_id_after_wraparound:
  "error_and_bucket_id
     (kaa_logging_request_serialize (ref_env NOOP 65534) (Some three_collector)
        (Some sample_writer) (\<lambda>a. 0) []) = Some (KAA_ERR_NONE, Some 65535) \<and>
   error_and_bucket_id
     (serialize_again (ref_env NOOP 65534)
        (kaa_logging_request_serialize (ref_env NOOP 65534) (Some three_collector)
           (Some sample_writer) (\<lambda>a. 0) [])) = Some (KAA_ERR_NONE, Some 0) \<and>
   error_and_bucket_id
     (serialize_again (ref_env NOOP 65534)
        (serialize_again (ref_env NOOP 65534)
           (kaa_logging_request_serialize (ref_env NOOP 65534) (Some three_collector)
              (Some sample_writer) (\<lambda>a. 0) []))) = Some (KAA_ERR_NONE, Some 65535) \<and>
   (0 :: uint16_t) + 1 \<noteq> 65535"
  by (simp add: error_and_bucket_id_def serialize_again_def kaa_logging_request_serialize_def
      serialize_prologue_def serialize_records.simps three_collector_def sample_writer_def
      ref_env_def ref_write_extension_header_def ref_write_alignment_def
      ref_aligned_size_get_def ptr_diff_def KAA_LOGGING_RECEIVE_UPDATES_FLAG_def Let_def)

subsection \<open>The byte budget\<close>

text \<open>
  Claim C2. The sample collector has a maximum bucket size of 16 and two pending records of
  12 and 8 bytes; the buffer has 1012 bytes after the header, the bucket id and the count,
  so the budget is 16. The first record takes the 16 bytes of the budget. The loop then
  passes \<^verbatim>\<open>remaining_size - sizeof(uint32_t)\<close>, which is \<open>0 - 4\<close> computed in \<^verbatim>\<open>size_t\<close>,
  that is \<open>2^64 - 4\<close>, as the buffer length, and the storage copies the second record too.
  The call succeeds with 28 bytes of framed records written: more than the budget.
\<close>

theorem serialize_exceeds_budget:
  "(case serialize_prologue (ref_env NOOP 0) sample_collector sample_writer (\<lambda>a. 0) [] of
      Inl early \<Rightarrow> False
    | Inr (self1, rcp, st0) \<Rightarrow>
        ss_remaining_size st0 = 16 \<and> current (ss_writer st0) = 12) \<and>
   map_option (\<lambda>(e, self_p, writer_p, m, tr). (e, map_option current writer_p, tr))
     (kaa_logging_request_serialize (ref_env NOOP 0) (Some sample_collector)
        (Some sample_writer) (\<lambda>a. 0) []) =
     Some (KAA_ERR_NONE, Some 40,
           [Write_extension_header KAA_ERR_NONE, Status_get_log_bucket_id KAA_ERR_NONE,
            Storage_write_next_record 12 1 KAA_ERR_NONE 12,
            Storage_write_next_record 18446744073709551612 1 KAA_ERR_NONE 8,
            Storage_write_next_record 18446744073709551600 1 KAA_ERR_NOT_FOUND 0]) \<and>
   (16 :: nat) < 40 - 12"
  by (simp add: kaa_logging_request_serialize_def serialize_prologue_def
      serialize_records.simps sample_collector_def sample_writer_def ref_env_def
      ref_write_extension_header_def ref_write_alignment_def ref_aligned_size_get_def
      ptr_diff_def KAA_LOGGING_RECEIVE_UPDATES_FLAG_def Let_def)

subsection \<open>The header fields of an encoded bucket\<close>

lemma load_store_htons: "load_ntohs (store_htons m p v) p = v"
  unfolding load_ntohs_def store_htons_def
  apply simp
  apply (rule bit_eqI)
  apply (auto simp add: bit_simps)
  done

lemma load_store_htonl: "load_ntohl (store_htonl m p v) p = v"
proof -
  have "push_bit 24 (ucast (ucast (drop_bit 24 v) :: uint8_t) :: uint32_t) OR
        push_bit 16 (ucast (ucast (drop_bit 16 v) :: uint8_t)) OR
        push_bit 8 (ucast (ucast (drop_bit 8 v) :: uint8_t)) OR
        ucast (ucast v :: uint8_t) = v"
  proof (rule bit_eqI)
    fix n
    assume "possible_bit TYPE(uint32_t) n"
    then have n: "n < 32" by simp
    consider "n < 8" | "8 \<le> n" "n < 16" | "16 \<le> n" "n < 24" | "24 \<le> n"
      by linarith
    then show "bit (push_bit 24 (ucast (ucast (drop_bit 24 v) :: uint8_t) :: uint32_t) OR
        push_bit 16 (ucast (ucast (drop_bit 16 v) :: uint8_t)) OR
        push_bit 8 (ucast (ucast (drop_bit 8 v) :: uint8_t)) OR
        ucast (ucast v :: uint8_t)) n = bit v n"
      using n by cases (auto simp add: bit_simps)
  qed
  then show ?thesis
    by (simp add: load_ntohl_def store_htonl_def)
qed

lemma load_ntohl_store_htons_above:
  "p + 4 \<le> q \<Longrightarrow> load_ntohl (store_htons m q v) p = load_ntohl m p"
  by (simp add: load_ntohl_def store_htons_def)

lemma ptr_diff_header:
  "ptr_diff a b - h = ptr_diff a (b + unat h)"
  by (simp add: ptr_diff_def)

lemma ptr_diff_of_nat: "b \<le> a \<Longrightarrow> ptr_diff a b = of_nat (a - b)"
  by (simp add: ptr_diff_def of_nat_diff)

lemma unat_ucast_of_nat_32:
  "k < 2 ^ 32 \<Longrightarrow> unat (ucast (of_nat k :: size_t) :: uint32_t) = k"
  by (simp add: unsigned_ucast_eq unat_of_nat take_bit_nat_eq_self_iff)

lemma unat_of_nat_16: "k < 2 ^ 16 \<Longrightarrow> unat (of_nat k :: uint16_t) = k"
  by (simp add: unat_of_nat)

lemma framed_bytes_append [simp]:
  "framed_bytes (xs @ ys) = framed_bytes xs + framed_bytes ys"
  by (induction xs rule: framed_bytes.induct) simp_all

lemma serialize_records_cursor:
  assumes "serialize_records env bucket_id st = Some y"
    and "alignment_contract env"
  shows "\<exists>new. ss_calls (snd y) = ss_calls st @ new \<and>
          current (ss_writer st) + framed_bytes new \<le> current (ss_writer (snd y)) \<and>
          current (ss_writer (snd y)) \<le>
            current (ss_writer st) + framed_bytes new + 3 * packed_records new"
  using assms(2)
proof (induction rule: serialize_records.raw_induct [OF _ assms(1)])
  case (1 rec env bucket_id st y)
  obtain e bytes s' where w:
    "storage_write_next_record env (ss_storage st) (ss_remaining_size st - 4) bucket_id =
       (e, bytes, s')"
    by (metis prod_cases3)
  define n :: size_t where "n = of_nat (length bytes)"
  define ev where "ev = Storage_write_next_record (ss_remaining_size st - 4) bucket_id e n"
  show ?case
  proof (cases "e = KAA_ERR_NONE")
    case True
    define w1 where "w1 = (ss_writer st)\<lparr>current := current (ss_writer st) + (4 + unat n)\<rparr>"
    define m1 where "m1 = store_htonl
        (write_bytes (ss_mem st) (current (ss_writer st) + 4) bytes)
        (current (ss_writer st)) (ucast n)"
    obtain m2 w2 where al: "write_alignment env m1 w1 = (m2, w2)"
      by fastforce
    define st2 where "st2 = st\<lparr>ss_storage := s',
        ss_calls := ss_calls st @ [ev],
        ss_records_count := ss_records_count st + 1, ss_mem := m2, ss_writer := w2,
        ss_remaining_size := ss_remaining_size st - (aligned_size_get env n + 4)\<rparr>"
    from 1(2) w True al have rec: "rec env bucket_id st2 = Some y"
      by (simp add: Let_def ev_def n_def w1_def m1_def st2_def)
    have calls2: "ss_calls st2 = ss_calls st @ [ev]"
      and writer2: "ss_writer st2 = snd (write_alignment env m1 w1)"
      by (simp_all add: st2_def al)
    from 1(3) have "current w1 \<le> current (snd (write_alignment env m1 w1))"
      "current (snd (write_alignment env m1 w1)) \<le> current w1 + 3"
      by (simp_all add: alignment_contract_def)
    then have cur2: "current (ss_writer st) + (4 + unat n) \<le> current (ss_writer st2)"
      "current (ss_writer st2) \<le> current (ss_writer st) + (4 + unat n) + 3"
      by (simp_all add: writer2 w1_def)
    from 1(1) [OF rec 1(3)] obtain new where new:
      "ss_calls (snd y) = ss_calls st2 @ new"
      "current (ss_writer st2) + framed_bytes new \<le> current (ss_writer (snd y))"
      "current (ss_writer (snd y)) \<le>
         current (ss_writer st2) + framed_bytes new + 3 * packed_records new"
      by blast
    have fb: "framed_bytes (ev # new) = 4 + unat n + framed_bytes new"
      "packed_records (ev # new) = Suc (packed_records new)"
      using True by (simp_all add: ev_def packed_records_def)
    have "ss_calls (snd y) = ss_calls st @ (ev # new)"
      using new(1) calls2 by simp
    moreover have "current (ss_writer st) + framed_bytes (ev # new) \<le> current (ss_writer (snd y))"
      using new(2) cur2(1) fb by linarith
    moreover have "current (ss_writer (snd y)) \<le>
        current (ss_writer st) + framed_bytes (ev # new) + 3 * packed_records (ev # new)"
      using new(3) cur2(2) fb by linarith
    ultimately show ?thesis by blast
  next
    case False
    with 1(2) w have y: "ss_calls (snd y) = ss_calls st @ [ev]"
        "ss_writer (snd y) = ss_writer st"
      by (auto simp add: Let_def ev_def n_def split: if_splits)
    have "framed_bytes [ev] = 0" "packed_records [ev] = 0"
      using False by (simp_all add: ev_def packed_records_def)
    then show ?thesis using y by (intro exI [of _ "[ev]"]) simp
  qed
qed

lemma serialize_prologue_cursor:
  assumes "serialize_prologue env self writer m tr = Inr (self1, rcp, st0)"
    and "header_contract env"
  shows "rcp = current writer + unat (EXTENSION_HEADER_SIZE env) + 2"
    and "current (ss_writer st0) = current writer + unat (EXTENSION_HEADER_SIZE env) + 4"
proof -
  obtain e m1 w1 where hd:
    "write_extension_header env m writer (LOGGING_EXTENSION_TYPE env)
       KAA_LOGGING_RECEIVE_UPDATES_FLAG 0 = (e, m1, w1)"
    by (metis prod_cases3)
  with assms(1) have e: "e = KAA_ERR_NONE"
    and r: "rcp = current w1 + 2" "current (ss_writer st0) = current w1 + 4"
    by (auto simp add: serialize_prologue_def Let_def split: prod.splits if_splits)
  from assms(2) hd e have "current w1 = current writer + unat (EXTENSION_HEADER_SIZE env)"
    unfolding header_contract_def by (metis fst_conv snd_conv)
  with r show "rcp = current writer + unat (EXTENSION_HEADER_SIZE env) + 2"
    and "current (ss_writer st0) = current writer + unat (EXTENSION_HEADER_SIZE env) + 4"
    by simp_all
qed

lemma framed_bytes_no_packed: "packed_records pre = 0 \<Longrightarrow> framed_bytes pre = 0"
  by (induction pre rule: framed_bytes.induct) (auto simp add: packed_records_def)

text \<open>The reference environment keeps the contracts of the cursor utilities.\<close>

lemma ref_env_header_contract: "header_contract (ref_env d seed)"
  by (simp add: header_contract_def ref_env_def ref_write_extension_header_def)

lemma ref_env_alignment_contract: "alignment_contract (ref_env d seed)"
proof -
  have "(4 - c mod 4) mod 4 \<le> 3" for c :: nat
    using mod_less_divisor [of 4 "4 - c mod 4"] by simp
  then show ?thesis
    by (simp add: alignment_contract_def ref_env_def ref_write_alignment_def Let_def)
qed

text \<open>
  What the header fields hold. Let a call of \<^verbatim>\<open>kaa_logging_request_serialize\<close> succeed,
  under the contract of the header utility, and let \<open>start\<close> be the address after the
  extension header. Then
  \<^item> the two bytes at \<open>start + 2\<close>, read big-endian, are the number \<open>N\<close> of records the call
    packed, as a 16-bit value, and are \<open>N\<close> itself when \<open>N < 2^16\<close>;
  \<^item> the four bytes at offset 4 of the header, read big-endian, are the distance from
    \<open>start\<close> to the final cursor, as a 32-bit value;
  \<^item> under the contract of the alignment utility that distance is 4 (bucket id and count)
    plus the length prefixes and payloads of the packed records plus at most 3 bytes of
    padding for each, and the decoded length is that distance when it is below \<open>2^32\<close>.
\<close>

theorem serialize_header_fields:
  "header_contract env \<and>
   kaa_logging_request_serialize env (Some self) (Some writer) m tr =
     Some (KAA_ERR_NONE, self_p', Some writer', m', tr') \<longrightarrow>
   load_ntohs m' (current writer + unat (EXTENSION_HEADER_SIZE env) + 2) =
     of_nat (packed_records (drop (length tr) tr')) \<and>
   load_ntohl m' (current writer + 4) =
     ucast (ptr_diff (current writer') (current writer + unat (EXTENSION_HEADER_SIZE env))) \<and>
   (packed_records (drop (length tr) tr') < 2 ^ 16 \<longrightarrow>
      unat (load_ntohs m' (current writer + unat (EXTENSION_HEADER_SIZE env) + 2)) =
        packed_records (drop (length tr) tr')) \<and>
   (alignment_contract env \<longrightarrow>
      current writer + unat (EXTENSION_HEADER_SIZE env) + 4 +
        framed_bytes (drop (length tr) tr') \<le> current writer' \<and>
      current writer' \<le>
        current writer + unat (EXTENSION_HEADER_SIZE env) + 4 +
        framed_bytes (drop (length tr) tr') + 3 * packed_records (drop (length tr) tr') \<and>
      (current writer' - (current writer + unat (EXTENSION_HEADER_SIZE env)) < 2 ^ 32 \<longrightarrow>
         unat (load_ntohl m' (current writer + 4)) =
           current writer' - (current writer + unat (EXTENSION_HEADER_SIZE env))))"
proof (intro impI)
  assume h: "header_contract env \<and>
   kaa_logging_request_serialize env (Some self) (Some writer) m tr =
     Some (KAA_ERR_NONE, self_p', Some writer', m', tr')"
  then have hc: "header_contract env"
    and run: "kaa_logging_request_serialize env (Some self) (Some writer) m tr =
     Some (KAA_ERR_NONE, self_p', Some writer', m', tr')"
    by simp_all
  define start where "start = current writer + unat (EXTENSION_HEADER_SIZE env)"
  define calls where "calls = drop (length tr) tr'"
  from run obtain self1 rcp st0 st where
    pro: "serialize_prologue env self writer m tr = Inr (self1, rcp, st0)"
    and loop: "serialize_records env (log_bucket_id self1) st0 = Some (KAA_ERR_NONE, st)"
    and res: "tr' = ss_calls st" "writer' = ss_writer st"
      "m' = store_htons
              (store_htonl (ss_mem st) (current writer + 4)
                 (ucast (ptr_diff (current (ss_writer st)) (current writer)
                         - EXTENSION_HEADER_SIZE env)))
              rcp (ss_records_count st)"
    by (auto simp add: kaa_logging_request_serialize_def Let_def
        split: option.splits if_splits sum.splits prod.splits
        dest: serialize_prologue_early)
  have rcp: "rcp = start + 2" and cur0: "current (ss_writer st0) = start + 4"
    using serialize_prologue_cursor [OF pro hc] by (simp_all add: start_def)
  have big: "8 \<le> unat (EXTENSION_HEADER_SIZE env)"
    using hc by (simp add: header_contract_def)
  obtain pre where pre: "ss_calls st0 = tr @ pre" "packed_records pre = 0"
    using serialize_prologue_start(1) [OF pro] by blast
  have zero: "ss_records_count st0 = 0"
    by (rule serialize_prologue_start(2) [OF pro])
  from serialize_records_calls [OF loop] obtain new where
    new: "ss_calls st = ss_calls st0 @ new"
      "ss_records_count st = ss_records_count st0 + of_nat (packed_records new)"
    by auto
  have calls: "calls = pre @ new"
    using pre(1) new(1) res(1) by (simp add: calls_def)
  have packed: "packed_records calls = packed_records new"
    using calls pre(2) by simp
  have framed: "framed_bytes calls = framed_bytes new"
    using calls framed_bytes_no_packed [OF pre(2)] by simp
  have count: "load_ntohs m' (start + 2) = of_nat (packed_records calls)"
    using res(3) rcp new(2) zero packed by (simp add: load_store_htons)
  have len: "load_ntohl m' (current writer + 4) = ucast (ptr_diff (current writer') start)"
  proof -
    have "current writer + 4 + 4 \<le> rcp"
      using rcp big by (simp add: start_def)
    then show ?thesis
      using res(2,3)
      by (simp add: load_ntohl_store_htons_above load_store_htonl ptr_diff_header start_def)
  qed
  have count_nat: "packed_records calls < 2 ^ 16 \<longrightarrow>
      unat (load_ntohs m' (start + 2)) = packed_records calls"
    using count by (simp add: unat_of_nat_16)
  have bounds: "alignment_contract env \<longrightarrow>
      start + 4 + framed_bytes calls \<le> current writer' \<and>
      current writer' \<le> start + 4 + framed_bytes calls + 3 * packed_records calls \<and>
      (current writer' - start < 2 ^ 32 \<longrightarrow>
         unat (load_ntohl m' (current writer + 4)) = current writer' - start)"
  proof
    assume ac: "alignment_contract env"
    from serialize_records_cursor [OF loop ac] obtain new' where
      new': "ss_calls st = ss_calls st0 @ new'"
        "current (ss_writer st0) + framed_bytes new' \<le> current (ss_writer st)"
        "current (ss_writer st) \<le>
           current (ss_writer st0) + framed_bytes new' + 3 * packed_records new'"
      by auto
    from new'(1) new(1) have same: "new' = new" by simp
    have lo: "start + 4 + framed_bytes calls \<le> current writer'"
      using new'(2) same cur0 framed res(2) by simp
    have hi: "current writer' \<le> start + 4 + framed_bytes calls + 3 * packed_records calls"
      using new'(3) same cur0 framed packed res(2) by simp
    from lo have "start \<le> current writer'" by simp
    then have "ptr_diff (current writer') start = of_nat (current writer' - start)"
      by (rule ptr_diff_of_nat)
    then have "current writer' - start < 2 ^ 32 \<longrightarrow>
         unat (load_ntohl m' (current writer + 4)) = current writer' - start"
      using len by (simp add: unat_ucast_of_nat_32)
    with lo hi show "start + 4 + framed_bytes calls \<le> current writer' \<and>
      current writer' \<le> start + 4 + framed_bytes calls + 3 * packed_records calls \<and>
      (current writer' - start < 2 ^ 32 \<longrightarrow>
         unat (load_ntohl m' (current writer + 4)) = current writer' - start)"
      by blast
  qed
  from count len count_nat bounds
  show "load_ntohs m' (current writer + unat (EXTENSION_HEADER_SIZE env) + 2) =
     of_nat (packed_records (drop (length tr) tr')) \<and>
   load_ntohl m' (current writer + 4) =
     ucast (ptr_diff (current writer') (current writer + unat (EXTENSION_HEADER_SIZE env))) \<and>
   (packed_records (drop (length tr) tr') < 2 ^ 16 \<longrightarrow>
      unat (load_ntohs m' (current writer + unat (EXTENSION_HEADER_SIZE env) + 2)) =
        packed_records (drop (length tr) tr')) \<and>
   (alignment_contract env \<longrightarrow>
      current writer + unat (EXTENSION_HEADER_SIZE env) + 4 +
        framed_bytes (drop (length tr) tr') \<le> current writer' \<and>
      current writer' \<le>
        current writer + unat (EXTENSION_HEADER_SIZE env) + 4 +
        framed_bytes (drop (length tr) tr') + 3 * packed_records (drop (length tr) tr') \<and>
      (current writer' - (current writer + unat (EXTENSION_HEADER_SIZE env)) < 2 ^ 32 \<longrightarrow>
         unat (load_ntohl m' (current writer + 4)) =
           current writer' - (current writer + unat (EXTENSION_HEADER_SIZE env))))"
    unfolding start_def calls_def by blast
qed

text \<open>
  The scenario of the specification on the reference environment: records of 10 and 20
  bytes, budget 1024. The count field decodes to 2 and the length field to
  \<open>44 = 4 + (4 + 10 + 2) + (4 + 20 + 0)\<close>.
\<close>

theorem serialize_header_fields_witness:
  "\<exists>self_p' writer' m' tr'.
     kaa_logging_request_serialize (ref_env NOOP 0) (Some scenario_collector)
       (Some sample_writer) (\<lambda>a. 0) [] =
       Some (KAA_ERR_NONE, self_p', Some writer', m', tr') \<and>
     header_contract (ref_env NOOP 0) \<and> alignment_contract (ref_env NOOP 0) \<and>
     packed_records tr' = 2 \<and> framed_bytes tr' = 38 \<and> current writer' = 52 \<and>
     unat (load_ntohs m' 10) = 2 \<and> unat (load_ntohl m' 4) = 44"
proof -
  obtain self_p' writer' m' tr' where
    run: "kaa_logging_request_serialize (ref_env NOOP 0) (Some scenario_collector)
       (Some sample_writer) (\<lambda>a. 0) [] =
       Some (KAA_ERR_NONE, self_p', Some writer', m', tr')"
    and vals: "packed_records tr' = 2" "framed_bytes tr' = 38" "current writer' = 52"
    by (simp add: kaa_logging_request_serialize_def serialize_prologue_def
        serialize_records.simps scenario_collector_def sample_writer_def ref_env_def
        ref_write_extension_header_def ref_write_alignment_def ref_aligned_size_get_def
        ptr_diff_def packed_records_def KAA_LOGGING_RECEIVE_UPDATES_FLAG_def Let_def)
  have hdr: "unat (EXTENSION_HEADER_SIZE (ref_env NOOP 0 :: ref_storage kaa_env)) = 8"
    "current sample_writer = 0"
    by (simp_all add: ref_env_def sample_writer_def)
  from serialize_header_fields
    [of "ref_env NOOP 0" scenario_collector sample_writer "\<lambda>a. 0" "[]" self_p' writer' m' tr']
    run vals hdr ref_env_header_contract [of NOOP 0] ref_env_alignment_contract [of NOOP 0]
  have "unat (load_ntohs m' 10) = 2" "unat (load_ntohl m' 4) = 44"
    by (simp_all add: ptr_diff_def)
  with run vals ref_env_header_contract [of NOOP 0] ref_env_alignment_contract [of NOOP 0]
  show ?thesis by blast
qed

subsection \<open>A bucket of more records than the count field holds\<close>

text \<open>
  The loop on the reference storage with \<open>n\<close> pending records of 4 bytes and a budget of at
  least \<open>8 * n\<close> bytes: it packs them all, and ends with \<^verbatim>\<open>KAA_ERR_NOT_FOUND\<close> when
  \<^verbatim>\<open>records_count\<close>, a \<^verbatim>\<open>uint16_t\<close>, is zero after them.
\<close>

lemma ref_write_next_record_pending:
  "\<forall>r \<in> set tagged. snd r \<noteq> None \<Longrightarrow>
   ref_write_next_record (tagged @ (payload, None) # rest) buffer_len bucket_id =
     (if (of_nat (length payload) :: size_t) \<le> buffer_len
      then (KAA_ERR_NONE, payload, tagged @ (payload, Some bucket_id) # rest)
      else (KAA_ERR_INSUFFICIENT_BUFFER, [], tagged @ (payload, None) # rest))"
  by (induction tagged) (auto split: prod.splits)

lemma ref_write_next_record_none_pending:
  "\<forall>r \<in> set tagged. snd r \<noteq> None \<Longrightarrow>
   ref_write_next_record tagged buffer_len bucket_id = (KAA_ERR_NOT_FOUND, [], tagged)"
  by (induction tagged) (auto split: prod.splits)

lemma ref_write_alignment_aligned:
  "current w mod 4 = 0 \<Longrightarrow> ref_write_alignment m w = (m, w)"
  by (simp add: ref_write_alignment_def Let_def)

lemma serialize_records_many:
  fixes st :: "ref_storage serialize_state"
  assumes "ss_storage st = Some (tagged @ replicate n ([1, 2, 3, 4], None))"
    and "\<forall>r \<in> set tagged. snd r \<noteq> None"
    and "current (ss_writer st) mod 4 = 0"
    and "8 * n \<le> unat (ss_remaining_size st)"
  shows "\<exists>st'. serialize_records (ref_env d seed) bucket_id st =
            Some (if ss_records_count st + of_nat n = 0 then KAA_ERR_NOT_FOUND
                  else KAA_ERR_NONE, st') \<and>
          ss_records_count st' = ss_records_count st + of_nat n \<and>
          packed_records (ss_calls st') = packed_records (ss_calls st) + n \<and>
          current (ss_writer st') = current (ss_writer st) + 8 * n"
  using assms
proof (induction n arbitrary: st tagged)
  case 0
  then have next_rec: "ref_write_next_record tagged (ss_remaining_size st - 4) bucket_id =
      (KAA_ERR_NOT_FOUND, [], tagged)"
    by (simp add: ref_write_next_record_none_pending)
  show ?case
    using 0(1) next_rec
    by (subst serialize_records.simps)
       (simp add: ref_env_def Let_def packed_records_def)
next
  case (Suc n)
  define ev where "ev = Storage_write_next_record (ss_remaining_size st - 4) bucket_id
      KAA_ERR_NONE (4 :: size_t)"
  define st2 where "st2 = st\<lparr>ss_storage :=
        Some ((tagged @ [([1, 2, 3, 4], Some bucket_id)]) @ replicate n ([1, 2, 3, 4], None)),
      ss_calls := ss_calls st @ [ev],
      ss_records_count := ss_records_count st + 1,
      ss_mem := store_htonl
        (write_bytes (ss_mem st) (current (ss_writer st) + 4) [1, 2, 3, 4])
        (current (ss_writer st)) 4,
      ss_writer := (ss_writer st)\<lparr>current := current (ss_writer st) + 8\<rparr>,
      ss_remaining_size := ss_remaining_size st - 8\<rparr>"
  from Suc.prems(4) have big: "8 \<le> unat (ss_remaining_size st)" by simp
  then have le8: "(8 :: size_t) \<le> ss_remaining_size st"
    by (simp add: word_le_nat_alt)
  then have le4: "(4 :: size_t) \<le> ss_remaining_size st"
    by (simp add: word_le_nat_alt)
  have "unat (ss_remaining_size st - 4) = unat (ss_remaining_size st) - 4"
    using unat_sub [OF le4] by simp
  with big have room: "(4 :: size_t) \<le> ss_remaining_size st - 4"
    by (simp add: word_le_nat_alt)
  have rem2: "unat (ss_remaining_size st - 8) = unat (ss_remaining_size st) - 8"
    using unat_sub [OF le8] by simp
  have next_rec: "ref_write_next_record (tagged @ replicate (Suc n) ([1, 2, 3, 4], None))
      (ss_remaining_size st - 4) bucket_id =
      (KAA_ERR_NONE, [1, 2, 3, 4],
       (tagged @ [([1, 2, 3, 4], Some bucket_id)]) @ replicate n ([1, 2, 3, 4], None))"
    using Suc.prems(2) room by (simp add: ref_write_next_record_pending)
  have al: "ref_write_alignment
      (store_htonl (write_bytes (ss_mem st) (current (ss_writer st) + 4) [1, 2, 3, 4])
         (current (ss_writer st)) 4)
      ((ss_writer st)\<lparr>current := current (ss_writer st) + 8\<rparr>) =
      (store_htonl (write_bytes (ss_mem st) (current (ss_writer st) + 4) [1, 2, 3, 4])
         (current (ss_writer st)) 4,
       (ss_writer st)\<lparr>current := current (ss_writer st) + 8\<rparr>)"
    using Suc.prems(3) by (intro ref_write_alignment_aligned) (simp add: mod_add_left_eq [symmetric])
  have step: "serialize_records (ref_env d seed) bucket_id st =
      serialize_records (ref_env d seed) bucket_id st2"
    using Suc.prems(1) next_rec [simplified] al [simplified]
    by (subst serialize_records.simps)
       (simp add: ref_env_def Let_def ref_aligned_size_get_def st2_def ev_def)
  have "\<exists>st'. serialize_records (ref_env d seed) bucket_id st2 =
            Some (if ss_records_count st2 + of_nat n = 0 then KAA_ERR_NOT_FOUND
                  else KAA_ERR_NONE, st') \<and>
          ss_records_count st' = ss_records_count st2 + of_nat n \<and>
          packed_records (ss_calls st') = packed_records (ss_calls st2) + n \<and>
          current (ss_writer st') = current (ss_writer st2) + 8 * n"
  proof (rule Suc.IH)
    show "ss_storage st2 =
        Some ((tagged @ [([1, 2, 3, 4], Some bucket_id)]) @ replicate n ([1, 2, 3, 4], None))"
      by (simp add: st2_def)
    show "\<forall>r \<in> set (tagged @ [([1, 2, 3, 4], Some bucket_id)]). snd r \<noteq> None"
      using Suc.prems(2) by simp
    show "current (ss_writer st2) mod 4 = 0"
      using Suc.prems(3) by (simp add: st2_def mod_add_left_eq [symmetric])
    show "8 * n \<le> unat (ss_remaining_size st2)"
      using Suc.prems(4) rem2 by (simp add: st2_def)
  qed
  then show ?case
    using step by (simp add: st2_def ev_def packed_records_def add.assoc)
qed

lemma many_prologue:
  "\<exists>m0. serialize_prologue (ref_env NOOP 0) (many_collector k) large_writer (\<lambda>a. 0) [] =
     Inr ((many_collector k)\<lparr>log_bucket_id := 1\<rparr>, 10,
          \<lparr>ss_storage = Some (replicate k ([1, 2, 3, 4], None)),
           ss_writer = \<lparr>current = 12, end_p = 2097152\<rparr>,
           ss_mem = m0,
           ss_remaining_size = 1048576, ss_records_count = 0,
           ss_calls = [Write_extension_header KAA_ERR_NONE,
                       Status_get_log_bucket_id KAA_ERR_NONE]\<rparr>)"
  by (simp add: serialize_prologue_def many_collector_def large_writer_def ref_env_def
      ref_write_extension_header_def ptr_diff_def KAA_LOGGING_RECEIVE_UPDATES_FLAG_def Let_def)

lemma many_serialize:
  assumes "8 * k \<le> 1048576"
  shows "(of_nat k :: uint16_t) \<noteq> 0 \<Longrightarrow>
     map_option (\<lambda>(e, self_p, writer_p, m, tr). (e, packed_records tr, load_ntohs m 10))
       (kaa_logging_request_serialize (ref_env NOOP 0) (Some (many_collector k))
          (Some large_writer) (\<lambda>a. 0) []) = Some (KAA_ERR_NONE, k, of_nat k)"
    and "(of_nat k :: uint16_t) = 0 \<Longrightarrow>
     map_option (\<lambda>(e, self_p, writer_p, m, tr). (e, packed_records tr))
       (kaa_logging_request_serialize (ref_env NOOP 0) (Some (many_collector k))
          (Some large_writer) (\<lambda>a. 0) []) = Some (KAA_ERR_NOT_FOUND, k)"
proof -
  obtain m0 where pro0:
    "serialize_prologue (ref_env NOOP 0) (many_collector k) large_writer (\<lambda>a. 0) [] =
     Inr ((many_collector k)\<lparr>log_bucket_id := 1\<rparr>, 10,
          \<lparr>ss_storage = Some (replicate k ([1, 2, 3, 4], None)),
           ss_writer = \<lparr>current = 12, end_p = 2097152\<rparr>,
           ss_mem = m0,
           ss_remaining_size = 1048576, ss_records_count = 0,
           ss_calls = [Write_extension_header KAA_ERR_NONE,
                       Status_get_log_bucket_id KAA_ERR_NONE]\<rparr>)"
    using many_prologue [of k] by blast
  define st0 :: "ref_storage serialize_state" where "st0 =
     \<lparr>ss_storage = Some (replicate k ([1, 2, 3, 4], None)),
      ss_writer = \<lparr>current = 12, end_p = 2097152\<rparr>,
      ss_mem = m0,
      ss_remaining_size = 1048576, ss_records_count = 0,
      ss_calls = [Write_extension_header KAA_ERR_NONE,
                  Status_get_log_bucket_id KAA_ERR_NONE]\<rparr>"
  have pro: "serialize_prologue (ref_env NOOP 0) (many_collector k) large_writer (\<lambda>a. 0) [] =
     Inr ((many_collector k)\<lparr>log_bucket_id := 1\<rparr>, 10, st0)"
    unfolding st0_def by (rule pro0)
  have "\<exists>st'. serialize_records (ref_env NOOP 0) 1 st0 =
            Some (if ss_records_count st0 + of_nat k = 0 then KAA_ERR_NOT_FOUND
                  else KAA_ERR_NONE, st') \<and>
          ss_records_count st' = ss_records_count st0 + of_nat k \<and>
          packed_records (ss_calls st') = packed_records (ss_calls st0) + k \<and>
          current (ss_writer st') = current (ss_writer st0) + 8 * k"
  proof (rule serialize_records_many [where tagged = "[]"])
    show "ss_storage st0 = Some ([] @ replicate k ([1, 2, 3, 4], None))"
      by (simp add: st0_def)
    show "\<forall>r \<in> set []. snd r \<noteq> (None :: uint16_t option)" by simp
    show "current (ss_writer st0) mod 4 = 0" by (simp add: st0_def)
    show "8 * k \<le> unat (ss_remaining_size st0)" using assms by (simp add: st0_def)
  qed
  then obtain st' where loop: "serialize_records (ref_env NOOP 0) 1 st0 =
        Some (if (of_nat k :: uint16_t) = 0 then KAA_ERR_NOT_FOUND else KAA_ERR_NONE, st')"
    and count: "ss_records_count st' = of_nat k"
    and packed: "packed_records (ss_calls st') = k"
    by (auto simp add: st0_def packed_records_def)
  have init: "log_storage (many_collector k) = Some (replicate k ([1, 2, 3, 4], None))"
    by (simp add: many_collector_def)
  show "map_option (\<lambda>(e, self_p, writer_p, m, tr). (e, packed_records tr, load_ntohs m 10))
       (kaa_logging_request_serialize (ref_env NOOP 0) (Some (many_collector k))
          (Some large_writer) (\<lambda>a. 0) []) = Some (KAA_ERR_NONE, k, of_nat k)"
    if "(of_nat k :: uint16_t) \<noteq> 0"
    using that init pro loop count packed
    by (simp add: kaa_logging_request_serialize_def Let_def load_store_htons)
  show "map_option (\<lambda>(e, self_p, writer_p, m, tr). (e, packed_records tr))
       (kaa_logging_request_serialize (ref_env NOOP 0) (Some (many_collector k))
          (Some large_writer) (\<lambda>a. 0) []) = Some (KAA_ERR_NOT_FOUND, k)"
    if "(of_nat k :: uint16_t) = 0"
    using that init pro loop packed
    by (simp add: kaa_logging_request_serialize_def Let_def)
qed

text \<open>
  Claim C5. \<^verbatim>\<open>records_count\<close> is a \<^verbatim>\<open>uint16_t\<close> that the loop increments for every record
  it packs, and nothing ends the loop when the counter is at its maximum. With 65537 pending
  records of 4 bytes and a budget of one mebibyte, \<^verbatim>\<open>kaa_logging_request_serialize\<close>
  succeeds and has packed 65537 records, and the count field of the encoded bucket decodes
  to 1: not the number of records of the bucket. With 65536 such records the counter is
  back at zero when the storage has no more record, and the call returns
  \<^verbatim>\<open>KAA_ERR_NOT_FOUND\<close> although it has packed them all.
\<close>

theorem serialize_count_wraps:
  "map_option (\<lambda>(e, self_p, writer_p, m, tr). (e, packed_records tr, load_ntohs m 10))
     (kaa_logging_request_serialize (ref_env NOOP 0) (Some (many_collector 65537))
        (Some large_writer) (\<lambda>a. 0) []) = Some (KAA_ERR_NONE, 65537, 1) \<and>
   map_option (\<lambda>(e, self_p, writer_p, m, tr). (e, packed_records tr))
     (kaa_logging_request_serialize (ref_env NOOP 0) (Some (many_collector 65536))
        (Some large_writer) (\<lambda>a. 0) []) = Some (KAA_ERR_NOT_FOUND, 65536)"
proof -
  have wrap: "(of_nat 65537 :: uint16_t) = 1"
    by simp
  have "map_option (\<lambda>(e, self_p, writer_p, m, tr). (e, packed_records tr, load_ntohs m 10))
     (kaa_logging_request_serialize (ref_env NOOP 0) (Some (many_collector 65537))
        (Some large_writer) (\<lambda>a. 0) []) = Some (KAA_ERR_NONE, 65537, of_nat 65537)"
    by (rule many_serialize(1)) simp_all
  then have first: "map_option
       (\<lambda>(e, self_p, writer_p, m, tr). (e, packed_records tr, load_ntohs m 10))
     (kaa_logging_request_serialize (ref_env NOOP 0) (Some (many_collector 65537))
        (Some large_writer) (\<lambda>a. 0) []) = Some (KAA_ERR_NONE, 65537, 1)"
    unfolding wrap .
  have second: "map_option (\<lambda>(e, self_p, writer_p, m, tr). (e, packed_records tr))
     (kaa_logging_request_serialize (ref_env NOOP 0) (Some (many_collector 65536))
        (Some large_writer) (\<lambda>a. 0) []) = Some (KAA_ERR_NOT_FOUND, 65536)"
    by (rule many_serialize(2)) simp_all
  from first second show ?thesis by (rule conjI)
qed

end
